theory Spec2Isabelle
  imports Complex_Main "HOL-Library.Stream"
begin

section \<open>Numbers and the three.js vector library\<close>

text \<open>
  A JavaScript \<^verbatim>\<open>number\<close> is modelled as a \<^typ>\<open>real\<close>: \<^verbatim>\<open>+\<close>, \<^verbatim>\<open>-\<close>,
  \<^verbatim>\<open>*\<close>, \<^verbatim>\<open>/\<close>, \<^verbatim>\<open>Math.sin\<close>, \<^verbatim>\<open>Math.cos\<close>, \<^verbatim>\<open>Math.sqrt\<close>,
  \<^verbatim>\<open>Math.abs\<close> and \<^verbatim>\<open>Math.floor\<close> are the exact operations; the rounding of IEEE
  doubles, infinities and NaN are outside the model. Everything below is a statement about
  this exact arithmetic.

  \<^verbatim>\<open>THREE.Vector2\<close>, \<^verbatim>\<open>THREE.Vector3\<close>, \<^verbatim>\<open>THREE.Quaternion\<close> and
  \<^verbatim>\<open>THREE.MathUtils\<close> belong to the three.js library the program imports. The
  functions below follow the library's methods of the same names.
\<close>

datatype Vector2 = Vector2 (v2x: real) (v2y: real)

datatype Vector3 = Vector3 (vx: real) (vy: real) (vz: real)

datatype Quaternion = Quaternion (qx: real) (qy: real) (qz: real) (qw: real)

definition Vector2_length :: "Vector2 \<Rightarrow> real" where
  "Vector2_length v = sqrt (v2x v * v2x v + v2y v * v2y v)"

definition Vector2_multiplyScalar :: "Vector2 \<Rightarrow> real \<Rightarrow> Vector2" where
  "Vector2_multiplyScalar v s = Vector2 (v2x v * s) (v2y v * s)"

definition Vector2_divideScalar :: "Vector2 \<Rightarrow> real \<Rightarrow> Vector2" where
  "Vector2_divideScalar v s = Vector2_multiplyScalar v (1 / s)"

text \<open>\<^verbatim>\<open>normalize() { return this.divideScalar( this.length() || 1 ); }\<close>: a zero length
  is replaced by 1, so the zero vector stays the zero vector.\<close>

definition Vector2_normalize :: "Vector2 \<Rightarrow> Vector2" where
  "Vector2_normalize v =
     Vector2_divideScalar v (if Vector2_length v = 0 then 1 else Vector2_length v)"

definition Vector3_add :: "Vector3 \<Rightarrow> Vector3 \<Rightarrow> Vector3" where
  "Vector3_add a b = Vector3 (vx a + vx b) (vy a + vy b) (vz a + vz b)"

definition Vector3_sub :: "Vector3 \<Rightarrow> Vector3 \<Rightarrow> Vector3" where
  "Vector3_sub a b = Vector3 (vx a - vx b) (vy a - vy b) (vz a - vz b)"

definition Vector3_multiplyScalar :: "Vector3 \<Rightarrow> real \<Rightarrow> Vector3" where
  "Vector3_multiplyScalar v s = Vector3 (vx v * s) (vy v * s) (vz v * s)"

definition Vector3_divideScalar :: "Vector3 \<Rightarrow> real \<Rightarrow> Vector3" where
  "Vector3_divideScalar v s = Vector3_multiplyScalar v (1 / s)"

definition Vector3_length :: "Vector3 \<Rightarrow> real" where
  "Vector3_length v = sqrt (vx v * vx v + vy v * vy v + vz v * vz v)"

definition Vector3_normalize :: "Vector3 \<Rightarrow> Vector3" where
  "Vector3_normalize v =
     Vector3_divideScalar v (if Vector3_length v = 0 then 1 else Vector3_length v)"

definition Vector3_distanceTo :: "Vector3 \<Rightarrow> Vector3 \<Rightarrow> real" where
  "Vector3_distanceTo a b =
     (let dx = vx a - vx b; dy = vy a - vy b; dz = vz a - vz b
      in sqrt (dx * dx + dy * dy + dz * dz))"

definition Quaternion_setFromAxisAngle :: "Vector3 \<Rightarrow> real \<Rightarrow> Quaternion" where
  "Quaternion_setFromAxisAngle axis angle =
     (let halfAngle = angle / 2; s = sin halfAngle
      in Quaternion (vx axis * s) (vy axis * s) (vz axis * s) (cos halfAngle))"

definition Vector3_applyQuaternion :: "Vector3 \<Rightarrow> Quaternion \<Rightarrow> Vector3" where
  "Vector3_applyQuaternion v q =
     (let tx = 2 * (qy q * vz v - qz q * vy v);
          ty = 2 * (qz q * vx v - qx q * vz v);
          tz = 2 * (qx q * vy v - qy q * vx v)
      in Vector3 (vx v + qw q * tx + qy q * tz - qz q * ty)
                 (vy v + qw q * ty + qz q * tx - qx q * tz)
                 (vz v + qw q * tz + qx q * ty - qy q * tx))"

definition Vector3_applyAxisAngle :: "Vector3 \<Rightarrow> Vector3 \<Rightarrow> real \<Rightarrow> Vector3" where
  "Vector3_applyAxisAngle v axis angle =
     Vector3_applyQuaternion v (Quaternion_setFromAxisAngle axis angle)"

definition MathUtils_lerp :: "real \<Rightarrow> real \<Rightarrow> real \<Rightarrow> real" where
  "MathUtils_lerp x y t = (1 - t) * x + t * y"

text \<open>\<^verbatim>\<open>MathUtils.smoothstep(x, min, max)\<close>: two early returns, then the cubic.\<close>

definition MathUtils_smoothstep :: "real \<Rightarrow> real \<Rightarrow> real \<Rightarrow> real" where
  "MathUtils_smoothstep x lo hi =
     (if x \<le> lo then 0
      else if x \<ge> hi then 1
      else (let t = (x - lo) / (hi - lo) in t * t * (3 - 2 * t)))"

section \<open>Heightfield\<close>

text \<open>\<^verbatim>\<open>Environment.getGroundHeight\<close> (Environment.ts) and the private
  \<^verbatim>\<open>Penguin.getGroundHeight\<close> (Penguin.ts): \<^verbatim>\<open>let h = 0\<close> followed by four
  \<^verbatim>\<open>h += ...\<close>, the wind direction built and normalised on every call.\<close>

definition Environment_getGroundHeight :: "real \<Rightarrow> real \<Rightarrow> real" where
  "Environment_getGroundHeight x z =
     (let h = 0;
          h = h + sin (x * 0.05) * cos (z * 0.04) * 0.4;
          h = h + sin (x * 0.02) * 0.2;
          windDir = Vector2_normalize (Vector2 1.0 0.5);
          windCoord = x * v2x windDir + z * v2y windDir;
          perpCoord = x * - v2y windDir + z * v2x windDir;
          h = h + sin (windCoord * 0.5) * sin (perpCoord * 5.0) * 0.05;
          h = h + sin (windCoord * 0.2) * 0.1
      in h)"

definition Penguin_getGroundHeight :: "real \<Rightarrow> real \<Rightarrow> real" where
  "Penguin_getGroundHeight x z =
     (let h = 0;
          h = h + sin (x * 0.05) * cos (z * 0.04) * 0.4;
          h = h + sin (x * 0.02) * 0.2;
          windDir = Vector2_normalize (Vector2 1.0 0.5);
          windCoord = x * v2x windDir + z * v2y windDir;
          perpCoord = x * - v2y windDir + z * v2x windDir;
          h = h + sin (windCoord * 0.5) * sin (perpCoord * 5.0) * 0.05;
          h = h + sin (windCoord * 0.2) * 0.1
      in h)"

section \<open>Footprint trail (class Penguin)\<close>

text \<open>
  A footprint is a \<^verbatim>\<open>THREE.Mesh\<close> with a material of its own. \<open>fid\<close> is the
  identity of the object: the number of footprints allocated before it. The model keeps
  the fields the program writes: position, the two rotation angles and the opacity of the
  material. Textures, geometry and \<^verbatim>\<open>material.dispose()\<close> are rendering resources and
  are left out.
\<close>

record Footprint =
  fid :: nat
  fp_position :: Vector3
  fp_rotation_x :: real
  fp_rotation_z :: real
  fp_opacity :: real

text \<open>
  The fields of \<^verbatim>\<open>Penguin\<close>. \<open>p_position\<close> is \<^verbatim>\<open>this.position\<close>, the same object as
  \<^verbatim>\<open>this.mesh.position\<close>; \<open>body\<close>, \<open>footprintTexture\<close> and \<open>footprintNormal\<close>
  record whether the field is non-null; \<open>scene_footprints\<close> lists the footprints
  attached to the scene, by identity; \<open>allocated\<close> counts the footprints created so far.
\<close>

record Penguin =
  p_position :: Vector3
  p_rotation_y :: real
  p_rotation_z :: real
  body :: bool
  p_walkTime :: real
  p_waddleSpeed :: real
  p_moveSpeed :: real
  scene_footprints :: "nat list"
  footprints :: "Footprint list"
  lastStepTime :: real
  isLeftStep :: bool
  footprintTexture :: bool
  footprintNormal :: bool
  allocated :: nat

text \<open>The state the constructor leaves: the model and the footprint image load later,
  \<^verbatim>\<open>footprintNormal\<close> is assigned at once from \<^verbatim>\<open>texLoader.load\<close>.\<close>

definition Penguin_new :: Penguin where
  "Penguin_new =
     \<lparr>p_position = Vector3 0 0 0, p_rotation_y = 0, p_rotation_z = 0, body = False,
      p_walkTime = 0, p_waddleSpeed = 8.0, p_moveSpeed = 2.0, scene_footprints = [],
      footprints = [], lastStepTime = 0, isLeftStep = True, footprintTexture = False,
      footprintNormal = True, allocated = 0\<rparr>"

text \<open>
  \<^verbatim>\<open>updateFootprints\<close>: \<^verbatim>\<open>for (let i = this.footprints.length - 1; i >= 0; i--)\<close>.
  The counter of the model is \<open>i + 1\<close>. The opacity is written into the footprint in place;
  a footprint at or below zero leaves the scene and is spliced out of the array.
\<close>

fun updateFootprints_loop ::
  "real \<Rightarrow> nat \<Rightarrow> nat list \<times> Footprint list \<Rightarrow> nat list \<times> Footprint list" where
  "updateFootprints_loop dt 0 (scene, fps) = (scene, fps)"
| "updateFootprints_loop dt (Suc i) (scene, fps) =
     (let fp = (fps ! i)\<lparr>fp_opacity := fp_opacity (fps ! i) - dt * 0.02\<rparr>;
          fps = fps[i := fp]
      in if fp_opacity fp \<le> 0
         then updateFootprints_loop dt i (remove1 (fid fp) scene, take i fps @ drop (Suc i) fps)
         else updateFootprints_loop dt i (scene, fps))"

definition updateFootprints :: "real \<Rightarrow> Penguin \<Rightarrow> Penguin" where
  "updateFootprints dt p =
     (let (scene, fps) =
            updateFootprints_loop dt (length (footprints p)) (scene_footprints p, footprints p)
      in p\<lparr>scene_footprints := scene, footprints := fps\<rparr>)"

text \<open>\<^verbatim>\<open>spawnFootprint\<close>: the early return while a texture is missing, the new decal,
  \<^verbatim>\<open>push\<close>, and \<^verbatim>\<open>shift\<close> once the array is longer than 200.\<close>

definition spawnFootprint :: "Vector3 \<Rightarrow> bool \<Rightarrow> Penguin \<Rightarrow> Penguin" where
  "spawnFootprint position isLeft p =
     (if \<not> footprintTexture p \<or> \<not> footprintNormal p then p
      else
        (let groundHeight = Penguin_getGroundHeight (vx position) (vz position);
             fp = \<lparr>fid = allocated p,
                   fp_position = Vector3 (vx position) (groundHeight + 0.03) (vz position),
                   fp_rotation_x = - pi / 2,
                   fp_rotation_z = (if isLeft then 0.2 else - 0.2) + pi,
                   fp_opacity = 1.0\<rparr>;
             p = p\<lparr>allocated := Suc (allocated p),
                   scene_footprints := scene_footprints p @ [fid fp],
                   footprints := footprints p @ [fp]\<rparr>
         in if length (footprints p) > 200
            then (case footprints p of
                    [] \<Rightarrow> p
                  | old # rest \<Rightarrow>
                      p\<lparr>footprints := rest,
                        scene_footprints := remove1 (fid old) (scene_footprints p)\<rparr>)
            else p))"

text \<open>\<^verbatim>\<open>Penguin.update(dt, moving, speedMultiplier, audio)\<close>. \<^verbatim>\<open>audio.playStep()\<close> acts on
  the audio manager only and is left out.\<close>

definition Penguin_update :: "real \<Rightarrow> bool \<Rightarrow> real \<Rightarrow> Penguin \<Rightarrow> Penguin" where
  "Penguin_update dt moving speedMultiplier p =
     (let p = updateFootprints dt p
      in if \<not> body p then p
         else if \<not> moving then p\<lparr>p_rotation_z := MathUtils_lerp (p_rotation_z p) 0 (dt * 5)\<rparr>
         else
           (let effectiveWaddleSpeed = p_waddleSpeed p * speedMultiplier;
                effectiveMoveSpeed = p_moveSpeed p * speedMultiplier;
                p = p\<lparr>p_walkTime := p_walkTime p + dt * effectiveWaddleSpeed\<rparr>;
                p = p\<lparr>p_position := Vector3 (vx (p_position p)) (vy (p_position p))
                                         (vz (p_position p) + effectiveMoveSpeed * dt)\<rparr>;
                waddle = sin (p_walkTime p);
                p = p\<lparr>p_rotation_z := waddle * 0.1, p_rotation_y := waddle * 0.05\<rparr>;
                bob = \<bar>cos (p_walkTime p)\<bar>;
                p = p\<lparr>p_position := Vector3 (vx (p_position p)) (bob * 0.05)
                                         (vz (p_position p))\<rparr>
            in if p_walkTime p - lastStepTime p > pi
               then
                 (let p = p\<lparr>lastStepTime := p_walkTime p\<rparr>;
                      footPos = Vector3 (vx (p_position p) + (if isLeftStep p then - 0.2 else 0.2))
                                  (vy (p_position p)) (vz (p_position p));
                      p = spawnFootprint footPos (isLeftStep p) p
                  in p\<lparr>isLeftStep := \<not> isLeftStep p\<rparr>)
               else p))"

text \<open>What can happen to a \<^verbatim>\<open>Penguin\<close> after construction: a call of \<^verbatim>\<open>update\<close>, a call
  of \<^verbatim>\<open>spawnFootprint\<close>, and the two loader callbacks of the constructor (the model
  arrives; the footprint image arrives and the canvas context exists).\<close>

datatype Penguin_event =
    Call_update real bool real
  | Call_spawnFootprint Vector3 bool
  | Model_loaded
  | Footprint_image_loaded

fun Penguin_step :: "Penguin \<Rightarrow> Penguin_event \<Rightarrow> Penguin" where
  "Penguin_step p (Call_update dt moving speedMultiplier) = Penguin_update dt moving speedMultiplier p"
| "Penguin_step p (Call_spawnFootprint position isLeft) = spawnFootprint position isLeft p"
| "Penguin_step p Model_loaded = p\<lparr>body := True\<rparr>"
| "Penguin_step p Footprint_image_loaded = p\<lparr>footprintTexture := True\<rparr>"

definition Penguin_run :: "Penguin_event list \<Rightarrow> Penguin" where
  "Penguin_run evs = foldl Penguin_step Penguin_new evs"

section \<open>Colony agents (class ColonyPenguin)\<close>

text \<open>
  \<^verbatim>\<open>Math.random()\<close> reads the next draw of a stream the caller supplies, and
  \<^verbatim>\<open>Date.now()\<close> is a parameter \<open>now\<close> (milliseconds, an integer): the two sources
  of a value that is not computed from the program's own state.
\<close>

definition Math_random :: "real stream \<Rightarrow> real \<times> real stream" where
  "Math_random rs = (shd rs, stl rs)"

datatype PenguinState = IDLE | WALKING | TURNING | LOOKING

text \<open>
  The fields of \<^verbatim>\<open>ColonyPenguin\<close>. \<open>position\<close> is \<^verbatim>\<open>this.position\<close>, the same
  object as \<^verbatim>\<open>this.mesh.position\<close>; \<open>rotation_x\<close>, \<open>rotation_y\<close>, \<open>rotation_z\<close> are
  \<^verbatim>\<open>this.mesh.rotation\<close>; \<open>material_opacity\<close> is the opacity \<^verbatim>\<open>setOpacity\<close> wrote
  into the materials of the mesh, \<open>visible\<close> is \<^verbatim>\<open>this.mesh.visible\<close>.
\<close>

record ColonyPenguin =
  position :: Vector3
  rotation_x :: real
  rotation_y :: real
  rotation_z :: real
  material_opacity :: real
  visible :: bool
  state :: PenguinState
  timer :: real
  stateDuration :: real
  walkTime :: real
  waddleSpeed :: real
  moveSpeed :: real
  targetRotation :: real
  currentRotation :: real
  headTilt :: real
  headTiltTarget :: real

definition pickNewState :: "ColonyPenguin \<Rightarrow> real stream \<Rightarrow> ColonyPenguin \<times> real stream" where
  "pickNewState a rs =
     (let (r, rs) = Math_random rs
      in if r < 0.6 then
           (let (d, rs) = Math_random rs
            in (a\<lparr>state := IDLE, stateDuration := 2 + d * 4, timer := 0\<rparr>, rs))
         else if r < 0.85 then
           (let (d, rs) = Math_random rs;
                (t, rs) = Math_random rs
            in (a\<lparr>state := WALKING, stateDuration := 1.5 + d * 3,
                  targetRotation := currentRotation a + (t - 0.5) * 1.5, timer := 0\<rparr>, rs))
         else if r < 0.95 then
           (let (d, rs) = Math_random rs;
                (t, rs) = Math_random rs
            in (a\<lparr>state := TURNING, stateDuration := 1 + d * 2,
                  targetRotation := t * pi * 2, timer := 0\<rparr>, rs))
         else
           (let (d, rs) = Math_random rs;
                (t, rs) = Math_random rs
            in (a\<lparr>state := LOOKING, stateDuration := 2 + d * 2,
                  headTiltTarget := (t - 0.5) * 0.5, timer := 0\<rparr>, rs)))"

text \<open>The constructor: the field initialisers draw \<^verbatim>\<open>waddleSpeed\<close> and
  \<^verbatim>\<open>moveSpeed\<close>, the body draws the facing angle and picks the first state. The cloned
  model is visible, with the material's default opacity 1.\<close>

definition ColonyPenguin_new :: "Vector3 \<Rightarrow> real stream \<Rightarrow> ColonyPenguin \<times> real stream" where
  "ColonyPenguin_new startPos rs =
     (let (w, rs) = Math_random rs;
          (m, rs) = Math_random rs;
          (c, rs) = Math_random rs;
          a = \<lparr>position = startPos, rotation_x = 0, rotation_y = c * pi * 2, rotation_z = 0,
               material_opacity = 1, visible = True, state = IDLE, timer = 0,
               stateDuration = 0, walkTime = 0, waddleSpeed = 5.0 + w * 3.0,
               moveSpeed = 0.5 + m * 0.5, targetRotation = c * pi * 2,
               currentRotation = c * pi * 2, headTilt = 0, headTiltTarget = 0\<rparr>
      in pickNewState a rs)"

definition updateIdle :: "real \<Rightarrow> int \<Rightarrow> ColonyPenguin \<Rightarrow> ColonyPenguin" where
  "updateIdle dt now a =
     a\<lparr>rotation_z := MathUtils_lerp (rotation_z a) (sin (real_of_int now * 0.001) * 0.02) (dt * 2)\<rparr>"

text \<open>
  The loop \<^verbatim>\<open>for (const other of otherPenguins)\<close> of \<^verbatim>\<open>updateWalking\<close>.
  \<^verbatim>\<open>otherPenguins\<close> is the manager's array, which holds the agent itself at index
  \<open>self\<close>; \<^verbatim>\<open>other === this\<close> is the test \<open>j = self\<close> on the running index \<open>j\<close>.
\<close>

fun avoidance_loop :: "Vector3 \<Rightarrow> nat \<Rightarrow> nat \<Rightarrow> ColonyPenguin list \<Rightarrow> Vector3 \<Rightarrow> Vector3" where
  "avoidance_loop pos self j [] avoidance = avoidance"
| "avoidance_loop pos self j (other # rest) avoidance =
     (if j = self then avoidance_loop pos self (Suc j) rest avoidance
      else
        (let dist = Vector3_distanceTo pos (position other)
         in if dist < 1.0
            then (let diff = Vector3_normalize (Vector3_sub pos (position other))
                  in avoidance_loop pos self (Suc j) rest
                       (Vector3_add avoidance (Vector3_multiplyScalar diff (0.5 / (dist + 0.1)))))
            else avoidance_loop pos self (Suc j) rest avoidance))"

definition updateWalking ::
  "real \<Rightarrow> Vector3 \<Rightarrow> ColonyPenguin list \<Rightarrow> nat \<Rightarrow> ColonyPenguin \<Rightarrow> ColonyPenguin" where
  "updateWalking dt colonyCenter otherPenguins self a =
     (let a = a\<lparr>walkTime := walkTime a + dt * waddleSpeed a\<rparr>;
          a = a\<lparr>currentRotation := MathUtils_lerp (currentRotation a) (targetRotation a) (dt * 2)\<rparr>;
          a = a\<lparr>rotation_y := currentRotation a\<rparr>;
          forward = Vector3_applyAxisAngle (Vector3 0 0 1) (Vector3 0 1 0) (currentRotation a);
          avoidance = avoidance_loop (position a) self 0 otherPenguins (Vector3 0 0 0);
          toCenter = Vector3_sub colonyCenter (position a);
          avoidance = (if Vector3_length toCenter > 5
                       then Vector3_add avoidance
                              (Vector3_multiplyScalar (Vector3_normalize toCenter) 0.1)
                       else avoidance);
          forward = Vector3_normalize (Vector3_add forward avoidance);
          a = a\<lparr>position :=
                  Vector3_add (position a) (Vector3_multiplyScalar forward (moveSpeed a * dt))\<rparr>;
          waddle = sin (walkTime a);
          a = a\<lparr>rotation_z := waddle * 0.08\<rparr>
      in a\<lparr>position := Vector3 (vx (position a))
                            (vy (position a) + \<bar>cos (walkTime a)\<bar> * 0.03)
                            (vz (position a))\<rparr>)"

definition updateTurning :: "real \<Rightarrow> int \<Rightarrow> ColonyPenguin \<Rightarrow> ColonyPenguin" where
  "updateTurning dt now a =
     (let a = a\<lparr>currentRotation := MathUtils_lerp (currentRotation a) (targetRotation a) (dt * 3)\<rparr>;
          a = a\<lparr>rotation_y := currentRotation a\<rparr>
      in a\<lparr>rotation_z := sin (real_of_int now * 0.01) * 0.03\<rparr>)"

definition updateLooking :: "real \<Rightarrow> ColonyPenguin \<Rightarrow> ColonyPenguin" where
  "updateLooking dt a =
     (let a = a\<lparr>headTilt := MathUtils_lerp (headTilt a) (headTiltTarget a) (dt * 2)\<rparr>
      in a\<lparr>rotation_x := headTilt a\<rparr>)"

text \<open>
  \<^verbatim>\<open>ColonyPenguin.update(dt, colonyCenter, otherPenguins)\<close> on the agent \<open>a\<close>, which
  stands at index \<open>self\<close> of \<open>otherPenguins\<close>; \<open>now\<close> is what \<^verbatim>\<open>Date.now()\<close> returns
  during the call.
\<close>

definition ColonyPenguin_update ::
  "real \<Rightarrow> Vector3 \<Rightarrow> ColonyPenguin list \<Rightarrow> nat \<Rightarrow> int \<Rightarrow> ColonyPenguin \<Rightarrow> real stream
     \<Rightarrow> ColonyPenguin \<times> real stream" where
  "ColonyPenguin_update dt colonyCenter otherPenguins self now a rs =
     (let a = a\<lparr>timer := timer a + dt\<rparr>;
          (a, rs) = (if timer a \<ge> stateDuration a then pickNewState a rs else (a, rs));
          a = (case state a of
                 IDLE \<Rightarrow> updateIdle dt now a
               | WALKING \<Rightarrow> updateWalking dt colonyCenter otherPenguins self a
               | TURNING \<Rightarrow> updateTurning dt now a
               | LOOKING \<Rightarrow> updateLooking dt a)
      in (a\<lparr>position := Vector3 (vx (position a))
                             (sin (vx (position a) * 0.1) * cos (vz (position a) * 0.1) * 0.5)
                             (vz (position a))\<rparr>, rs))"

definition setOpacity :: "real \<Rightarrow> ColonyPenguin \<Rightarrow> ColonyPenguin" where
  "setOpacity opacity a = a\<lparr>material_opacity := opacity, visible := (opacity > 0.01)\<rparr>"

section \<open>Colony manager\<close>

text \<open>\<^verbatim>\<open>colonyCenter\<close> is initialised to the origin and never assigned again.\<close>

definition colonyCenter :: Vector3 where
  "colonyCenter = Vector3 0 0 0"

text \<open>
  \<^verbatim>\<open>this.penguins.forEach(p => p.update(dt, this.colonyCenter, this.penguins))\<close>: the
  agents are updated in place one after the other, so the agent at index \<open>i\<close> sees the new
  positions of the agents before it. \<open>clock i\<close> is the reading of \<^verbatim>\<open>Date.now()\<close>
  during the update of agent \<open>i\<close>.
\<close>

function forEach_update ::
  "real \<Rightarrow> (nat \<Rightarrow> int) \<Rightarrow> nat \<Rightarrow> ColonyPenguin list \<Rightarrow> real stream
     \<Rightarrow> ColonyPenguin list \<times> real stream" where
  "forEach_update dt clock i ps rs =
     (if i < length ps
      then (case ColonyPenguin_update dt colonyCenter ps i (clock i) (ps ! i) rs of
              (a, rs') \<Rightarrow> forEach_update dt clock (Suc i) (ps[i := a]) rs')
      else (ps, rs))"
  by pat_completeness auto
termination
  by (relation "measure (\<lambda>(dt, clock, i, ps, rs). length ps - i)") auto

declare forEach_update.simps [simp del]

text \<open>\<^verbatim>\<open>ColonyManager.update(dt, playerPos)\<close> on the array \<^verbatim>\<open>this.penguins\<close>.\<close>

definition ColonyManager_update ::
  "real \<Rightarrow> Vector3 \<Rightarrow> (nat \<Rightarrow> int) \<Rightarrow> ColonyPenguin list \<Rightarrow> real stream
     \<Rightarrow> ColonyPenguin list \<times> real stream" where
  "ColonyManager_update dt playerPos clock penguins rs =
     (let (penguins, rs) = forEach_update dt clock 0 penguins rs;
          fadeStart = 5;
          fadeEnd = 30;
          dist = Vector3_length playerPos;
          opacity = 1.0 - MathUtils_smoothstep dist fadeStart fadeEnd
      in (map (setOpacity opacity) penguins, rs))"

text \<open>A run of frames: each frame brings its \<open>dt\<close>, the player's position and the
  readings of the wall clock.\<close>

fun ColonyManager_run ::
  "(real \<times> Vector3 \<times> (nat \<Rightarrow> int)) list \<Rightarrow> ColonyPenguin list \<Rightarrow> real stream
     \<Rightarrow> ColonyPenguin list \<times> real stream" where
  "ColonyManager_run [] penguins rs = (penguins, rs)"
| "ColonyManager_run ((dt, playerPos, clock) # frames) penguins rs =
     (case ColonyManager_update dt playerPos clock penguins rs of
        (penguins', rs') \<Rightarrow> ColonyManager_run frames penguins' rs')"

section \<open>Mountain mesh generator\<close>

text \<open>
  The three closures of \<^verbatim>\<open>createMountainMesh\<close>, with the captured \<open>seed\<close> as their
  first argument. \<^verbatim>\<open>Math.pow\<close> is only applied to a base that is not negative, where it
  is \<open>powr\<close> (with \<open>0 powr e = 0\<close>, as \<^verbatim>\<open>Math.pow(0, e)\<close> for a positive \<open>e\<close>).
\<close>

definition Math_pow :: "real \<Rightarrow> real \<Rightarrow> real" where
  "Math_pow b e = b powr e"

definition random :: "real \<Rightarrow> real \<Rightarrow> real \<Rightarrow> real" where
  "random seed x z =
     (let s = sin ((x + seed) * 12.9898 + (z + seed) * 78.233) * 43758.5453
      in s - real_of_int \<lfloor>s\<rfloor>)"

definition noise :: "real \<Rightarrow> real \<Rightarrow> real \<Rightarrow> real" where
  "noise seed x z =
     (let i = real_of_int \<lfloor>x\<rfloor>;
          j = real_of_int \<lfloor>z\<rfloor>;
          u = x - i;
          v = z - j
      in (random seed i j * (1 - u) + random seed (i + 1) j * u) * (1 - v) +
         (random seed i (j + 1) * (1 - u) + random seed (i + 1) (j + 1) * u) * v)"

text \<open>\<^verbatim>\<open>for (let o = 0; o < octaves; o++)\<close>: the counter of the model is the number of
  octaves still to add.\<close>

fun fbm_loop :: "real \<Rightarrow> real \<Rightarrow> real \<Rightarrow> nat \<Rightarrow> real \<Rightarrow> real \<Rightarrow> real \<Rightarrow> real" where
  "fbm_loop seed x z 0 total' amp freq = total'"
| "fbm_loop seed x z (Suc n) total' amp freq =
     fbm_loop seed x z n (total' + noise seed (x * freq) (z * freq) * amp) (amp * 0.5) (freq * 2)"

definition fbm :: "real \<Rightarrow> real \<Rightarrow> real \<Rightarrow> nat \<Rightarrow> real" where
  "fbm seed x z octaves = fbm_loop seed x z octaves 0 1 1"

text \<open>The body of the loop \<^verbatim>\<open>for (let i = 0; i < pos.count; i++)\<close> on the vertex
  \<open>v = (getX(i), getY(i), getZ(i))\<close>: the new vertex after \<^verbatim>\<open>pos.setZ\<close>.\<close>

definition deformVertex :: "real \<Rightarrow> real \<Rightarrow> real \<Rightarrow> Vector3 \<Rightarrow> Vector3" where
  "deformVertex scale heightScale seed v =
     (let radius = 4500 * scale;
          x = vx v;
          y = vy v;
          d = sqrt (x * x + y * y);
          mask = max 0 (1 - Math_pow (d / radius) 1.5);
          mask = Math_pow mask 1.0
      in if mask \<le> 0 then Vector3 x y (- 10)
         else
           (let h = 0;
                n1 = fbm seed (x * 0.001) (y * 0.001) 4;
                h = h + n1 * 1200 * mask * heightScale;
                n2 = fbm seed (x * 0.005) (y * 0.005) 6;
                h = h + n2 * 150 * mask * heightScale;
                ridgeRaw = 1.0 - \<bar>fbm seed (x * 0.0006 + 50) (y * 0.0006 + 50) 2 * 2.0 - 1.0\<bar>;
                ridge = max 0 ridgeRaw;
                h = h + Math_pow ridge 1.8 * 500 * mask * heightScale
            in Vector3 x y h))"

definition deformVertices :: "real \<Rightarrow> real \<Rightarrow> real \<Rightarrow> Vector3 list \<Rightarrow> Vector3 list" where
  "deformVertices scale heightScale seed pos =
     fold (\<lambda>i pos. pos[i := deformVertex scale heightScale seed (pos ! i)]) [0..<length pos] pos"

text \<open>\<^verbatim>\<open>new THREE.PlaneGeometry(width, height, widthSegments, heightSegments)\<close>: the
  position attribute of the library's plane, row by row, every vertex at \<open>z = 0\<close>.\<close>

definition PlaneGeometry :: "real \<Rightarrow> real \<Rightarrow> nat \<Rightarrow> nat \<Rightarrow> Vector3 list" where
  "PlaneGeometry width height widthSegments heightSegments =
     (let width_half = width / 2;
          height_half = height / 2;
          gridX = widthSegments;
          gridY = heightSegments;
          gridX1 = gridX + 1;
          gridY1 = gridY + 1;
          segment_width = width / real gridX;
          segment_height = height / real gridY
      in concat (map (\<lambda>iy. map (\<lambda>ix. Vector3 (real ix * segment_width - width_half)
                                          (- (real iy * segment_height - height_half)) 0)
                              [0..<gridX1])
                  [0..<gridY1]))"

text \<open>The mesh \<^verbatim>\<open>createMountainMesh\<close> returns: the deformed position attribute and the
  placement of the mesh. Normals, material and the vertex colours are left out.\<close>

record MountainMesh =
  geometry_position :: "Vector3 list"
  mesh_position :: Vector3
  mesh_rotation_x :: real

definition createMountainMesh :: "real \<Rightarrow> real \<Rightarrow> real \<Rightarrow> real \<Rightarrow> real \<Rightarrow> MountainMesh" where
  "createMountainMesh offsetX offsetZ scale heightScale seed =
     (let baseSize = 10000 * scale;
          segs = nat \<lfloor>256 * max 0.75 scale\<rfloor>;
          pos = PlaneGeometry baseSize baseSize segs segs;
          pos = deformVertices scale heightScale seed pos
      in \<lparr>geometry_position = pos,
          mesh_position = Vector3 offsetX (- 10) (7500 + offsetZ),
          mesh_rotation_x = - pi / 2\<rparr>)"

section \<open>Footprint trail: the predicates of the proofs\<close>

text \<open>The part of a \<^verbatim>\<open>Penguin\<close> that \<^verbatim>\<open>spawnFootprint\<close> and \<^verbatim>\<open>updateFootprints\<close>
  read and write, apart from the scene.\<close>

definition trail :: "Penguin \<Rightarrow> Footprint list \<times> nat \<times> bool \<times> bool" where
  "trail p = (footprints p, allocated p, footprintTexture p, footprintNormal p)"

text \<open>Identities are unique and older than the allocation counter; an identity is gone
  when it was allocated and is not in the array.\<close>

definition trail_wf :: "Penguin \<Rightarrow> bool" where
  "trail_wf p \<longleftrightarrow> distinct (map fid (footprints p)) \<and> (\<forall>f \<in> set (footprints p). fid f < allocated p)"

definition footprint_gone :: "nat \<Rightarrow> Penguin \<Rightarrow> bool" where
  "footprint_gone k p \<longleftrightarrow> k < allocated p \<and> k \<notin> fid ` set (footprints p)"

section \<open>Colony agents: the parts of an update\<close>

text \<open>The three parts of \<^verbatim>\<open>ColonyPenguin.update\<close>: the timer and the transition test,
  the \<^verbatim>\<open>switch\<close> on the state, and the placement on the ground.\<close>

definition elapse :: "real \<Rightarrow> ColonyPenguin \<Rightarrow> real stream \<Rightarrow> ColonyPenguin \<times> real stream" where
  "elapse dt a rs =
     (if stateDuration a \<le> timer a + dt then pickNewState (a\<lparr>timer := timer a + dt\<rparr>) rs
      else (a\<lparr>timer := timer a + dt\<rparr>, rs))"

definition behave ::
  "real \<Rightarrow> Vector3 \<Rightarrow> ColonyPenguin list \<Rightarrow> nat \<Rightarrow> int \<Rightarrow> ColonyPenguin \<Rightarrow> ColonyPenguin" where
  "behave dt c others self now a =
     (case state a of
        IDLE \<Rightarrow> updateIdle dt now a
      | WALKING \<Rightarrow> updateWalking dt c others self a
      | TURNING \<Rightarrow> updateTurning dt now a
      | LOOKING \<Rightarrow> updateLooking dt a)"

definition place :: "ColonyPenguin \<Rightarrow> ColonyPenguin" where
  "place a =
     a\<lparr>position := Vector3 (vx (position a))
                      (sin (vx (position a) * 0.1) * cos (vz (position a) * 0.1) * 0.5)
                      (vz (position a))\<rparr>"

text \<open>The fields that the state machine owns: \<^verbatim>\<open>pickNewState\<close> writes them, the four
  behaviours leave them alone.\<close>

definition control :: "ColonyPenguin \<Rightarrow> PenguinState \<times> real \<times> real \<times> real \<times> real" where
  "control a = (state a, stateDuration a, timer a, targetRotation a, headTiltTarget a)"

text \<open>An agent without the fields that the wall clock and the fader write: the body
  roll \<^verbatim>\<open>rotation.z\<close>, the opacity and the visibility flag.\<close>

definition no_roll :: "ColonyPenguin \<Rightarrow> ColonyPenguin" where
  "no_roll a = a\<lparr>rotation_z := 0, material_opacity := 0, visible := False\<rparr>"

section \<open>Colony agents: steering and fading in the words of the specification\<close>

text \<open>
  The steering of a walking agent as the specification words it. \<open>normalization\<close> divides
  a vector by its length and leaves the zero vector alone; \<open>facing_vector\<close> is the unit
  vector of a facing angle in the ground plane; \<open>separation_force\<close> sums, over every other
  agent closer than 1.0, the normalised difference scaled by \<open>0.5 / (dist + 0.1)\<close>;
  \<open>cohesion_force\<close> points to the centre with length 0.1 beyond the distance 5.
\<close>

definition normalization :: "Vector3 \<Rightarrow> Vector3" where
  "normalization v =
     (if v = Vector3 0 0 0 then Vector3 0 0 0
      else Vector3 (vx v / Vector3_length v) (vy v / Vector3_length v) (vz v / Vector3_length v))"

definition Vector3_sum :: "Vector3 list \<Rightarrow> Vector3" where
  "Vector3_sum vs = foldr Vector3_add vs (Vector3 0 0 0)"

definition facing_vector :: "real \<Rightarrow> Vector3" where
  "facing_vector angle = Vector3 (sin angle) 0 (cos angle)"

definition separation_force :: "Vector3 \<Rightarrow> nat \<Rightarrow> ColonyPenguin list \<Rightarrow> Vector3" where
  "separation_force pos self others =
     Vector3_sum
       (map (\<lambda>(j, other).
               Vector3_multiplyScalar (normalization (Vector3_sub pos (position other)))
                 (0.5 / (Vector3_distanceTo pos (position other) + 0.1)))
          (filter (\<lambda>(j, other). j \<noteq> self \<and> Vector3_distanceTo pos (position other) < 1.0)
             (zip [0..<length others] others)))"

definition cohesion_force :: "Vector3 \<Rightarrow> Vector3 \<Rightarrow> Vector3" where
  "cohesion_force center pos =
     (if Vector3_distanceTo pos center > 5
      then Vector3_multiplyScalar (normalization (Vector3_sub center pos)) 0.1
      else Vector3 0 0 0)"

definition steering :: "real \<Rightarrow> Vector3 \<Rightarrow> nat \<Rightarrow> ColonyPenguin list \<Rightarrow> Vector3 \<Rightarrow> Vector3" where
  "steering angle pos self others center =
     normalization (Vector3_add (Vector3_add (facing_vector angle) (separation_force pos self others))
                                (cohesion_force center pos))"

text \<open>The smoothstep of the specification's glossary, the clamped cubic
  \<open>3t\<^sup>2 - 2t\<^sup>3\<close>, and the opacity of the fader at the distance \<open>d\<close>.\<close>

definition smoothstep_cubic :: "real \<Rightarrow> real \<Rightarrow> real \<Rightarrow> real" where
  "smoothstep_cubic x lo hi =
     (let t = max 0 (min 1 ((x - lo) / (hi - lo))) in 3 * t\<^sup>2 - 2 * t ^ 3)"

definition fade_opacity :: "real \<Rightarrow> real" where
  "fade_opacity d = 1 - smoothstep_cubic d 5 30"

section \<open>Two agents fresh from the constructor\<close>

text \<open>The agent the constructor returns at \<open>(3, 0, 0)\<close> (angle 0, radius 3 in
  \<^verbatim>\<open>loadAndSpawn\<close>) for the draws \<open>0, 0, 0, 7/10, 1/6, 1/2\<close>: it walks, facing along
  \<open>+z\<close>, and its height is still the 0 of the spawn position.\<close>

definition newcomer :: ColonyPenguin where
  "newcomer =
     \<lparr>position = Vector3 3 0 0, rotation_x = 0, rotation_y = 0, rotation_z = 0,
      material_opacity = 1, visible = True, state = WALKING, timer = 0, stateDuration = 2,
      walkTime = 0, waddleSpeed = 5, moveSpeed = 1 / 2, targetRotation = 0,
      currentRotation = 0, headTilt = 0, headTiltTarget = 0\<rparr>"

text \<open>The agent the constructor returns there for the draws \<open>0, 0, 0, 1/2, 0\<close>: it is
  idle for two seconds.\<close>

definition idler :: ColonyPenguin where
  "idler = newcomer\<lparr>state := IDLE\<rparr>"

section \<open>Facts about the vector library\<close>

lemma windDir_length: "Vector2_length (Vector2 1.0 0.5) = sqrt 5 / 2"
proof -
  have "Vector2_length (Vector2 1.0 0.5) = sqrt (5 / 4)"
    by (simp add: Vector2_length_def)
  also have "\<dots> = sqrt 5 / sqrt 4"
    by (rule real_sqrt_divide)
  also have "sqrt 4 = (2::real)"
    using real_sqrt_abs [of 2] by simp
  finally show ?thesis .
qed

lemma windDir_normalize:
  "Vector2_normalize (Vector2 1.0 0.5) = Vector2 (2 / sqrt 5) (1 / sqrt 5)"
proof -
  have pos: "sqrt 5 / 2 \<noteq> (0::real)"
    by simp
  show ?thesis
    unfolding Vector2_normalize_def windDir_length
    using pos by (simp add: Vector2_divideScalar_def Vector2_multiplyScalar_def)
qed

section \<open>Heightfield: the two call sites agree\<close>

text \<open>
  Claim C1. For every \<open>(x, z)\<close> the ground height of \<^verbatim>\<open>Environment\<close> and the one of
  \<^verbatim>\<open>Penguin\<close> are the same number, and it is
  \<open>sin(x*0.05)*cos(z*0.04)*0.4 + sin(x*0.02)*0.2 + sin(w*0.5)*sin(p*5.0)*0.05 + sin(w*0.2)*0.1\<close>
  with \<open>(wx, wz)\<close> the vector \<open>(1.0, 0.5)\<close> divided by its Euclidean length,
  \<open>w = x*wx + z*wz\<close> and \<open>p = x*(-wz) + z*wx\<close>.
\<close>

theorem getGroundHeight_agree:
  fixes x z :: real
  defines "wx \<equiv> 1.0 / sqrt (1.0\<^sup>2 + 0.5\<^sup>2)"
    and "wz \<equiv> 0.5 / sqrt (1.0\<^sup>2 + 0.5\<^sup>2)"
  defines "w \<equiv> x * wx + z * wz"
    and "p \<equiv> x * (- wz) + z * wx"
  shows "Environment_getGroundHeight x z = Penguin_getGroundHeight x z \<and>
         Penguin_getGroundHeight x z =
           sin (x * 0.05) * cos (z * 0.04) * 0.4 + sin (x * 0.02) * 0.2
           + sin (w * 0.5) * sin (p * 5.0) * 0.05 + sin (w * 0.2) * 0.1"
proof -
  have len: "sqrt (1.0\<^sup>2 + 0.5\<^sup>2) = sqrt 5 / (2::real)"
    using windDir_length by (simp add: Vector2_length_def power2_eq_square)
  have wx: "wx = 2 / sqrt 5" and wz: "wz = 1 / sqrt 5"
    unfolding wx_def wz_def len by simp_all
  have same: "Environment_getGroundHeight x z = Penguin_getGroundHeight x z"
    by (simp add: Environment_getGroundHeight_def Penguin_getGroundHeight_def)
  have formula: "Penguin_getGroundHeight x z =
           sin (x * 0.05) * cos (z * 0.04) * 0.4 + sin (x * 0.02) * 0.2
           + sin (w * 0.5) * sin (p * 5.0) * 0.05 + sin (w * 0.2) * 0.1"
    unfolding Penguin_getGroundHeight_def Let_def windDir_normalize w_def p_def wx wz
    by simp
  from same formula show ?thesis by blast
qed

theorem getGroundHeight_agree_witness:
  "Environment_getGroundHeight 0 0 = Penguin_getGroundHeight 0 0 \<and> Penguin_getGroundHeight 0 0 = 0"
  using getGroundHeight_agree [of 0 0] by simp

section \<open>Footprint trail: the decay loop is a filter\<close>

lemma updateFootprints_loop_footprints:
  "n \<le> length fps \<Longrightarrow>
   snd (updateFootprints_loop dt n (scene, fps)) =
     filter (\<lambda>f. 0 < fp_opacity f)
       (map (\<lambda>f. f\<lparr>fp_opacity := fp_opacity f - dt * 0.02\<rparr>) (take n fps)) @ drop n fps"
proof (induction n arbitrary: scene fps)
  case 0
  then show ?case by simp
next
  case (Suc i)
  then have i: "i < length fps" by simp
  let ?fp = "(fps ! i)\<lparr>fp_opacity := fp_opacity (fps ! i) - dt * 0.02\<rparr>"
  have tk: "take (Suc i) fps = take i fps @ [fps ! i]"
    using i by (simp add: take_Suc_conv_app_nth)
  show ?case
  proof (cases "fp_opacity ?fp \<le> 0")
    case True
    have "i \<le> length (take i fps @ drop (Suc i) fps)" using i by simp
    from Suc.IH [OF this, of "remove1 (fid ?fp) scene"] True i
    show ?thesis by (simp add: tk Let_def)
  next
    case False
    have "i \<le> length (fps[i := ?fp])" using i by simp
    from Suc.IH [OF this, of scene] False i
    show ?thesis by (simp add: tk Let_def drop_update_cancel upd_conv_take_nth_drop)
  qed
qed

lemma footprints_updateFootprints:
  "footprints (updateFootprints dt p) =
     filter (\<lambda>f. 0 < fp_opacity f)
       (map (\<lambda>f. f\<lparr>fp_opacity := fp_opacity f - dt * 0.02\<rparr>) (footprints p))"
  using updateFootprints_loop_footprints [of "length (footprints p)" "footprints p" dt "scene_footprints p"]
  by (simp add: updateFootprints_def case_prod_beta)

lemma updateFootprints_fields:
  "allocated (updateFootprints dt p) = allocated p"
  "footprintTexture (updateFootprints dt p) = footprintTexture p"
  "footprintNormal (updateFootprints dt p) = footprintNormal p"
  "body (updateFootprints dt p) = body p"
  by (simp_all add: updateFootprints_def case_prod_beta)

lemma footprints_spawnFootprint:
  "footprints (spawnFootprint pos isLeft p) =
     (if \<not> footprintTexture p \<or> \<not> footprintNormal p then footprints p
      else if length (footprints p) \<ge> 200
      then tl (footprints p @
             [\<lparr>fid = allocated p,
               fp_position = Vector3 (vx pos) (Penguin_getGroundHeight (vx pos) (vz pos) + 0.03) (vz pos),
               fp_rotation_x = - pi / 2,
               fp_rotation_z = (if isLeft then 0.2 else - 0.2) + pi,
               fp_opacity = 1.0\<rparr>])
      else footprints p @
             [\<lparr>fid = allocated p,
               fp_position = Vector3 (vx pos) (Penguin_getGroundHeight (vx pos) (vz pos) + 0.03) (vz pos),
               fp_rotation_x = - pi / 2,
               fp_rotation_z = (if isLeft then 0.2 else - 0.2) + pi,
               fp_opacity = 1.0\<rparr>])"
  by (cases "footprints p") (auto simp: spawnFootprint_def Let_def)

lemma allocated_spawnFootprint:
  "allocated (spawnFootprint pos isLeft p) =
     (if \<not> footprintTexture p \<or> \<not> footprintNormal p then allocated p else Suc (allocated p))"
  by (cases "footprints p") (auto simp: spawnFootprint_def Let_def split: list.splits)

lemma length_spawnFootprint:
  "length (footprints p) \<le> 200 \<Longrightarrow> length (footprints (spawnFootprint pos isLeft p)) \<le> 200"
  by (simp add: footprints_spawnFootprint)

lemma length_updateFootprints:
  "length (footprints (updateFootprints dt p)) \<le> length (footprints p)"
  by (simp add: footprints_updateFootprints le_trans [OF length_filter_le])


lemma trail_spawnFootprint_cong:
  "trail q = trail q' \<Longrightarrow> trail (spawnFootprint pos isLeft q) = trail (spawnFootprint pos isLeft q')"
  by (cases "footprints q'") (auto simp: trail_def spawnFootprint_def Let_def)

lemma trail_Penguin_update:
  "trail (Penguin_update dt moving sm p) = trail (updateFootprints dt p) \<or>
   (\<exists>pos isLeft. trail (Penguin_update dt moving sm p) =
        trail (spawnFootprint pos isLeft (updateFootprints dt p)))"
proof -
  define q where "q = updateFootprints dt p"
  define wt where "wt = p_walkTime q + dt * (p_waddleSpeed q * sm)"
  show ?thesis
  proof (cases "body q \<and> moving \<and> pi < wt - lastStepTime q")
    case False
    then have "trail (Penguin_update dt moving sm p) = trail q"
      by (auto simp: Penguin_update_def Let_def q_def [symmetric] wt_def trail_def)
    then show ?thesis by (simp add: q_def)
  next
    case True
    define pos where "pos = Vector3 (vx (p_position q) + (if isLeftStep q then - 0.2 else 0.2))
       (\<bar>cos wt\<bar> * 0.05) (vz (p_position q) + p_moveSpeed q * sm * dt)"
    define q' where "q' = q\<lparr>p_walkTime := wt,
        p_position := Vector3 (vx (p_position q)) (vy (p_position q))
                        (vz (p_position q) + p_moveSpeed q * sm * dt),
        p_rotation_z := sin wt * 0.1, p_rotation_y := sin wt * 0.05,
        p_position := Vector3 (vx (p_position q)) (\<bar>cos wt\<bar> * 0.05)
                        (vz (p_position q) + p_moveSpeed q * sm * dt),
        lastStepTime := wt\<rparr>"
    have upd: "Penguin_update dt moving sm p =
        (spawnFootprint pos (isLeftStep q) q')\<lparr>isLeftStep := \<not> isLeftStep (spawnFootprint pos (isLeftStep q) q')\<rparr>"
      using True
      by (simp add: Penguin_update_def Let_def q_def [symmetric] wt_def [symmetric] pos_def q'_def)
    have "trail q' = trail q"
      by (simp add: q'_def trail_def)
    from trail_spawnFootprint_cong [OF this]
    have "trail (Penguin_update dt moving sm p) = trail (spawnFootprint pos (isLeftStep q) q)"
      by (simp add: upd trail_def)
    then show ?thesis unfolding q_def by blast
  qed
qed

section \<open>Footprint trail: capacity\<close>

lemma length_Penguin_step:
  assumes "length (footprints p) \<le> 200"
  shows "length (footprints (Penguin_step p ev)) \<le> 200"
proof (cases ev)
  case (Call_update dt moving sm)
  have a: "length (footprints (updateFootprints dt p)) \<le> 200"
    using length_updateFootprints [of dt p] assms by simp
  from trail_Penguin_update [of dt moving sm p] a length_spawnFootprint [OF a]
  show ?thesis unfolding Call_update by (auto simp: trail_def)
next
  case (Call_spawnFootprint pos isLeft)
  then show ?thesis using length_spawnFootprint [OF assms] by simp
qed (use assms in simp_all)

lemma length_foldl_Penguin_step:
  "length (footprints p) \<le> 200 \<Longrightarrow> length (footprints (foldl Penguin_step p evs)) \<le> 200"
  by (induction evs arbitrary: p) (simp_all add: length_Penguin_step)

text \<open>
  Claim C2. After any sequence of \<^verbatim>\<open>update\<close> and \<^verbatim>\<open>spawnFootprint\<close> calls (and of the
  loader callbacks) on a new \<^verbatim>\<open>Penguin\<close> the trail holds at most 200 footprints; and a
  \<^verbatim>\<open>spawnFootprint\<close> that inserts into a trail of 200 or more drops the footprint at
  index 0 in that same call: the array becomes its own tail followed by the new footprint.
\<close>

theorem footprint_capacity:
  "length (footprints (Penguin_run evs)) \<le> 200 \<and>
   (footprintTexture p \<and> footprintNormal p \<and> 200 \<le> length (footprints p) \<longrightarrow>
      (\<exists>new. footprints (spawnFootprint pos isLeft p) = tl (footprints p) @ [new] \<and>
             fid new = allocated p \<and> fp_opacity new = 1))"
proof -
  have "length (footprints (Penguin_run evs)) \<le> 200"
    unfolding Penguin_run_def
    by (rule length_foldl_Penguin_step) (simp add: Penguin_new_def)
  moreover have "footprintTexture p \<and> footprintNormal p \<and> 200 \<le> length (footprints p) \<longrightarrow>
      (\<exists>new. footprints (spawnFootprint pos isLeft p) = tl (footprints p) @ [new] \<and>
             fid new = allocated p \<and> fp_opacity new = 1)"
    by (cases "footprints p") (auto simp: footprints_spawnFootprint)
  ultimately show ?thesis by blast
qed

text \<open>The trail after the footprint image has arrived and 200 footprints were spawned
  is full; the next spawn drops its first footprint.\<close>

lemma textures_spawnFootprint:
  "footprintTexture (spawnFootprint pos isLeft p) = footprintTexture p"
  "footprintNormal (spawnFootprint pos isLeft p) = footprintNormal p"
  by (cases "footprints p"; simp add: spawnFootprint_def Let_def split: list.splits)+

lemma repeated_spawn:
  "footprintTexture q \<Longrightarrow> footprintNormal q \<Longrightarrow> length (footprints q) + n \<le> 200 \<Longrightarrow>
   footprintTexture (foldl Penguin_step q (replicate n (Call_spawnFootprint pos isLeft))) \<and>
   footprintNormal (foldl Penguin_step q (replicate n (Call_spawnFootprint pos isLeft))) \<and>
   length (footprints (foldl Penguin_step q (replicate n (Call_spawnFootprint pos isLeft)))) =
     length (footprints q) + n \<and>
   allocated (foldl Penguin_step q (replicate n (Call_spawnFootprint pos isLeft))) = allocated q + n"
proof (induction n arbitrary: q)
  case 0
  then show ?case by simp
next
  case (Suc n)
  let ?q = "spawnFootprint pos isLeft q"
  from Suc.prems have "footprintTexture ?q" "footprintNormal ?q"
    "length (footprints ?q) + n \<le> 200"
    by (simp_all add: textures_spawnFootprint footprints_spawnFootprint)
  from Suc.IH [OF this] Suc.prems show ?case
    by (simp add: footprints_spawnFootprint allocated_spawnFootprint)
qed

lemma full_trail:
  "footprintTexture (Penguin_run (Footprint_image_loaded # replicate 200 (Call_spawnFootprint pos isLeft)))"
  "footprintNormal (Penguin_run (Footprint_image_loaded # replicate 200 (Call_spawnFootprint pos isLeft)))"
  "length (footprints (Penguin_run (Footprint_image_loaded # replicate 200 (Call_spawnFootprint pos isLeft)))) = 200"
  "allocated (Penguin_run (Footprint_image_loaded # replicate 200 (Call_spawnFootprint pos isLeft))) = 200"
  using repeated_spawn [of "Penguin_new\<lparr>footprintTexture := True\<rparr>" 200 pos isLeft]
  by (simp_all add: Penguin_run_def Penguin_new_def)

theorem footprint_capacity_witness:
  "length (footprints (Penguin_run
      (Footprint_image_loaded # replicate 200 (Call_spawnFootprint (Vector3 0 0 0) True)))) \<le> 200 \<and>
   (\<exists>new. footprints (spawnFootprint (Vector3 0 0 0) True
              (Penguin_run (Footprint_image_loaded # replicate 200 (Call_spawnFootprint (Vector3 0 0 0) True)))) =
            tl (footprints (Penguin_run
              (Footprint_image_loaded # replicate 200 (Call_spawnFootprint (Vector3 0 0 0) True)))) @ [new] \<and>
          fid new = 200 \<and> fp_opacity new = 1)"
  using footprint_capacity [of
      "Footprint_image_loaded # replicate 200 (Call_spawnFootprint (Vector3 0 0 0) True)"
      "Penguin_run (Footprint_image_loaded # replicate 200 (Call_spawnFootprint (Vector3 0 0 0) True))"
      "Vector3 0 0 0" True]
  by (simp add: full_trail)

section \<open>Footprint trail: decay\<close>

lemma trail_wf_cong: "trail q = trail q' \<Longrightarrow> trail_wf q = trail_wf q'"
  by (simp add: trail_def trail_wf_def)

lemma footprint_gone_cong: "trail q = trail q' \<Longrightarrow> footprint_gone k q = footprint_gone k q'"
  by (simp add: trail_def footprint_gone_def)

lemma map_fid_updateFootprints:
  "map fid (footprints (updateFootprints dt p)) =
     map fid (filter (\<lambda>f. 0 < fp_opacity f - dt * 0.02) (footprints p))"
  by (simp add: footprints_updateFootprints filter_map comp_def)

lemma trail_wf_updateFootprints: "trail_wf p \<Longrightarrow> trail_wf (updateFootprints dt p)"
  unfolding trail_wf_def map_fid_updateFootprints
  by (auto simp: footprints_updateFootprints updateFootprints_fields distinct_map_filter)

lemma trail_wf_spawnFootprint: "trail_wf p \<Longrightarrow> trail_wf (spawnFootprint pos isLeft p)"
  unfolding trail_wf_def
  by (cases "footprints p")
     (auto simp: footprints_spawnFootprint allocated_spawnFootprint less_Suc_eq)

lemma footprint_gone_updateFootprints: "footprint_gone k p \<Longrightarrow> footprint_gone k (updateFootprints dt p)"
  by (auto simp: footprint_gone_def footprints_updateFootprints updateFootprints_fields)

lemma footprint_gone_spawnFootprint: "footprint_gone k p \<Longrightarrow> footprint_gone k (spawnFootprint pos isLeft p)"
  unfolding footprint_gone_def
  by (cases "footprints p")
     (auto simp: footprints_spawnFootprint allocated_spawnFootprint)

lemma trail_wf_Penguin_update: "trail_wf p \<Longrightarrow> trail_wf (Penguin_update dt moving sm p)"
  using trail_Penguin_update [of dt moving sm p]
        trail_wf_updateFootprints [of p dt]
        trail_wf_spawnFootprint [of "updateFootprints dt p"]
  by (auto dest: trail_wf_cong)

lemma footprint_gone_after_decay:
  "footprint_gone k (updateFootprints dt p) \<Longrightarrow> footprint_gone k (Penguin_update dt moving sm p)"
  using trail_Penguin_update [of dt moving sm p]
        footprint_gone_spawnFootprint [of k "updateFootprints dt p"]
  by (auto dest: footprint_gone_cong)

lemma footprint_gone_Penguin_update: "footprint_gone k p \<Longrightarrow> footprint_gone k (Penguin_update dt moving sm p)"
  by (rule footprint_gone_after_decay) (rule footprint_gone_updateFootprints)

lemma trail_wf_Penguin_step: "trail_wf p \<Longrightarrow> trail_wf (Penguin_step p ev)"
  by (cases ev) (simp_all add: trail_wf_Penguin_update trail_wf_spawnFootprint, simp_all add: trail_wf_def)

lemma footprint_gone_Penguin_step: "footprint_gone k p \<Longrightarrow> footprint_gone k (Penguin_step p ev)"
  by (cases ev) (simp_all add: footprint_gone_Penguin_update footprint_gone_spawnFootprint, simp_all add: footprint_gone_def)

lemma trail_wf_foldl: "trail_wf p \<Longrightarrow> trail_wf (foldl Penguin_step p evs)"
  by (induction evs arbitrary: p) (simp_all add: trail_wf_Penguin_step)

lemma footprint_gone_foldl: "footprint_gone k p \<Longrightarrow> footprint_gone k (foldl Penguin_step p evs)"
  by (induction evs arbitrary: p) (simp_all add: footprint_gone_Penguin_step)

lemma trail_wf_Penguin_run: "trail_wf (Penguin_run evs)"
  unfolding Penguin_run_def
  by (rule trail_wf_foldl) (simp add: trail_wf_def Penguin_new_def)

lemma removed_is_footprint_gone:
  assumes "trail_wf p" and "f \<in> set (footprints p)" and "fp_opacity f - dt * 0.02 \<le> 0"
  shows "footprint_gone (fid f) (updateFootprints dt p)"
proof -
  have "fid f < allocated p"
    using assms(1,2) by (simp add: trail_wf_def)
  moreover have "fid f \<notin> fid ` set (footprints (updateFootprints dt p))"
  proof
    assume "fid f \<in> fid ` set (footprints (updateFootprints dt p))"
    then have "fid f \<in> set (map fid (footprints (updateFootprints dt p)))"
      by simp
    then have "fid f \<in> set (map fid (filter (\<lambda>f. 0 < fp_opacity f - dt * 0.02) (footprints p)))"
      by (simp only: map_fid_updateFootprints)
    then obtain g where g: "g \<in> set (footprints p)" "0 < fp_opacity g - dt * 0.02" "fid g = fid f"
      by auto
    from assms(1) have "inj_on fid (set (footprints p))"
      by (simp add: trail_wf_def distinct_map)
    with g assms(2) have "g = f" by (auto dest: inj_onD)
    with g(2) assms(3) show False by simp
  qed
  ultimately show ?thesis by (simp add: footprint_gone_def updateFootprints_fields)
qed

text \<open>
  Claim C5. For \<open>dt > 0\<close>, on every state a \<^verbatim>\<open>Penguin\<close> can reach: one decay pass leaves
  exactly the footprints whose opacity minus \<open>0.02 * dt\<close> is positive, in their old order and
  with that opacity; each retained footprint is an old one with an opacity strictly below
  its old one; and the identity of a footprint that the pass removes is in the array
  neither after the pass nor after the enclosing \<^verbatim>\<open>update\<close> and any later events.
\<close>

theorem footprint_decay:
  assumes "0 < dt"
  shows
   "footprints (updateFootprints dt (Penguin_run evs)) =
      filter (\<lambda>f. 0 < fp_opacity f)
        (map (\<lambda>f. f\<lparr>fp_opacity := fp_opacity f - 0.02 * dt\<rparr>) (footprints (Penguin_run evs))) \<and>
    (\<forall>g \<in> set (footprints (updateFootprints dt (Penguin_run evs))).
       \<exists>f \<in> set (footprints (Penguin_run evs)).
         fid g = fid f \<and> fp_opacity g = fp_opacity f - 0.02 * dt \<and> fp_opacity g < fp_opacity f) \<and>
    (\<forall>f \<in> set (footprints (Penguin_run evs)).
       fp_opacity f - 0.02 * dt \<le> 0 \<longrightarrow>
         fid f \<notin> fid ` set (footprints (updateFootprints dt (Penguin_run evs))) \<and>
         fid f \<notin> fid ` set (footprints (Penguin_run (evs @ Call_update dt moving sm # evs'))))"
proof -
  let ?p = "Penguin_run evs"
  have eq: "footprints (updateFootprints dt ?p) =
      filter (\<lambda>f. 0 < fp_opacity f)
        (map (\<lambda>f. f\<lparr>fp_opacity := fp_opacity f - 0.02 * dt\<rparr>) (footprints ?p))"
    by (simp add: footprints_updateFootprints mult.commute)
  have dec: "\<forall>g \<in> set (footprints (updateFootprints dt ?p)).
       \<exists>f \<in> set (footprints ?p).
         fid g = fid f \<and> fp_opacity g = fp_opacity f - 0.02 * dt \<and> fp_opacity g < fp_opacity f"
    unfolding eq using assms by auto
  have rem: "fid f \<notin> fid ` set (footprints (updateFootprints dt ?p)) \<and>
         fid f \<notin> fid ` set (footprints (Penguin_run (evs @ Call_update dt moving sm # evs')))"
    if f: "f \<in> set (footprints ?p)" and le: "fp_opacity f - 0.02 * dt \<le> 0" for f
  proof -
    from le have "fp_opacity f - dt * 0.02 \<le> 0" by (simp add: mult.commute)
    from removed_is_footprint_gone [OF trail_wf_Penguin_run f this]
    have g: "footprint_gone (fid f) (updateFootprints dt ?p)" .
    then have "footprint_gone (fid f) (Penguin_update dt moving sm ?p)"
      by (rule footprint_gone_after_decay)
    then have "footprint_gone (fid f) (foldl Penguin_step (Penguin_update dt moving sm ?p) evs')"
      by (rule footprint_gone_foldl)
    with g show ?thesis
      by (simp add: footprint_gone_def Penguin_run_def)
  qed
  from eq dec rem show ?thesis by blast
qed

lemma Penguin_run_one_step:
  "footprints (Penguin_run [Footprint_image_loaded, Call_spawnFootprint (Vector3 0 0 0) True]) =
     [\<lparr>fid = 0, fp_position = Vector3 0 0.03 0, fp_rotation_x = - pi / 2,
       fp_rotation_z = 0.2 + pi, fp_opacity = 1\<rparr>]"
  by (simp add: Penguin_run_def Penguin_new_def spawnFootprint_def Let_def
      Penguin_getGroundHeight_def)

theorem footprint_decay_witness:
  "map fp_opacity (footprints (updateFootprints 10
       (Penguin_run [Footprint_image_loaded, Call_spawnFootprint (Vector3 0 0 0) True]))) = [0.8] \<and>
   0 \<notin> fid ` set (footprints (Penguin_run
       ([Footprint_image_loaded, Call_spawnFootprint (Vector3 0 0 0) True] @
        Call_update 60 False 1 # [Call_spawnFootprint (Vector3 0 0 0) False])))"
proof -
  have a: "(0::real) < 10" and b: "(0::real) < 60" by simp_all
  from footprint_decay [OF a, of "[Footprint_image_loaded, Call_spawnFootprint (Vector3 0 0 0) True]"]
  have 1: "map fp_opacity (footprints (updateFootprints 10
       (Penguin_run [Footprint_image_loaded, Call_spawnFootprint (Vector3 0 0 0) True]))) = [0.8]"
    by (simp add: Penguin_run_one_step)
  from footprint_decay [OF b, of "[Footprint_image_loaded, Call_spawnFootprint (Vector3 0 0 0) True]"
      False 1 "[Call_spawnFootprint (Vector3 0 0 0) False]"]
  have 2: "0 \<notin> fid ` set (footprints (Penguin_run
       ([Footprint_image_loaded, Call_spawnFootprint (Vector3 0 0 0) True] @
        Call_update 60 False 1 # [Call_spawnFootprint (Vector3 0 0 0) False])))"
    by (simp add: Penguin_run_one_step)
  from 1 2 show ?thesis by blast
qed


section \<open>Colony agents: the state machine\<close>

lemma draws_in_range:
  assumes "\<forall>r \<in> sset rs. 0 \<le> r \<and> r < (1::real)"
  shows "0 \<le> shd rs" "shd rs < 1" "0 \<le> shd (stl rs)" "shd (stl rs) < 1"
        "0 \<le> shd (stl (stl rs))" "shd (stl (stl rs)) < 1"
proof -
  have "shd rs \<in> sset rs" "shd (stl rs) \<in> sset rs" "shd (stl (stl rs)) \<in> sset rs"
    by (simp_all add: shd_sset stl_sset)
  with assms show "0 \<le> shd rs" "shd rs < 1" "0 \<le> shd (stl rs)" "shd (stl rs) < 1"
        "0 \<le> shd (stl (stl rs))" "shd (stl (stl rs)) < 1"
    by blast+
qed

lemma pickNewState_table:
  assumes "\<forall>r \<in> sset rs. 0 \<le> r \<and> r < (1::real)"
  shows "(case pickNewState a rs of (b, rs') \<Rightarrow>
            timer b = 0 \<and>
            state b = (if shd rs < 0.6 then IDLE else if shd rs < 0.85 then WALKING
                       else if shd rs < 0.95 then TURNING else LOOKING) \<and>
            (case state b of
               IDLE \<Rightarrow> 2 \<le> stateDuration b \<and> stateDuration b < 6
             | WALKING \<Rightarrow> 1.5 \<le> stateDuration b \<and> stateDuration b < 4.5 \<and>
                   - 0.75 \<le> targetRotation b - currentRotation a \<and>
                   targetRotation b - currentRotation a \<le> 0.75
             | TURNING \<Rightarrow> 1 \<le> stateDuration b \<and> stateDuration b < 3 \<and>
                   0 \<le> targetRotation b \<and> targetRotation b < 2 * pi
             | LOOKING \<Rightarrow> 2 \<le> stateDuration b \<and> stateDuration b < 4 \<and>
                   - 0.25 \<le> headTiltTarget b \<and> headTiltTarget b \<le> 0.25))"
proof -
  note d = draws_in_range [OF assms]
  have tp: "shd (stl (stl rs)) * pi * 2 < 2 * pi"
    using d(6) pi_gt_zero by simp
  have tp0: "0 \<le> shd (stl (stl rs)) * pi * 2"
    using d(5) pi_gt_zero by simp
  show ?thesis
    using d tp tp0 by (simp add: pickNewState_def Math_random_def Let_def)
qed


lemma control_behaviours:
  "control (updateIdle dt now a) = control a"
  "control (updateWalking dt c others self a) = control a"
  "control (updateTurning dt now a) = control a"
  "control (updateLooking dt a) = control a"
  by (simp_all add: control_def updateIdle_def updateWalking_def updateTurning_def
      updateLooking_def Let_def)

lemma ColonyPenguin_update_control:
  "control (fst (ColonyPenguin_update dt c others self now a rs)) =
     (if stateDuration a \<le> timer a + dt
      then control (fst (pickNewState (a\<lparr>timer := timer a + dt\<rparr>) rs))
      else control (a\<lparr>timer := timer a + dt\<rparr>))"
  "snd (ColonyPenguin_update dt c others self now a rs) =
     (if stateDuration a \<le> timer a + dt
      then snd (pickNewState (a\<lparr>timer := timer a + dt\<rparr>) rs)
      else rs)"
proof -
  define b where "b = (if stateDuration a \<le> timer a + dt
      then pickNewState (a\<lparr>timer := timer a + dt\<rparr>) rs else (a\<lparr>timer := timer a + dt\<rparr>, rs))"
  define b' where "b' = (case state (fst b) of
                 IDLE \<Rightarrow> updateIdle dt now (fst b)
               | WALKING \<Rightarrow> updateWalking dt c others self (fst b)
               | TURNING \<Rightarrow> updateTurning dt now (fst b)
               | LOOKING \<Rightarrow> updateLooking dt (fst b))"
  have c: "control b' = control (fst b)"
    unfolding b'_def by (cases "state (fst b)") (simp_all add: control_behaviours)
  have u: "ColonyPenguin_update dt c others self now a rs =
      (b'\<lparr>position := Vector3 (vx (position b'))
                             (sin (vx (position b') * 0.1) * cos (vz (position b') * 0.1) * 0.5)
                             (vz (position b'))\<rparr>, snd b)"
    by (simp add: ColonyPenguin_update_def Let_def b_def b'_def case_prod_beta
        cong: PenguinState.case_cong)
  have "control (fst (ColonyPenguin_update dt c others self now a rs)) = control b'"
    by (simp add: u control_def)
  with c show "control (fst (ColonyPenguin_update dt c others self now a rs)) =
     (if stateDuration a \<le> timer a + dt
      then control (fst (pickNewState (a\<lparr>timer := timer a + dt\<rparr>) rs))
      else control (a\<lparr>timer := timer a + dt\<rparr>))"
    by (simp add: b_def)
  show "snd (ColonyPenguin_update dt c others self now a rs) =
     (if stateDuration a \<le> timer a + dt
      then snd (pickNewState (a\<lparr>timer := timer a + dt\<rparr>) rs)
      else rs)"
    by (simp add: u b_def)
qed

lemma ColonyPenguin_update_y:
  "vy (position (fst (ColonyPenguin_update dt c others self now a rs))) =
     sin (vx (position (fst (ColonyPenguin_update dt c others self now a rs))) * 0.1) *
     cos (vz (position (fst (ColonyPenguin_update dt c others self now a rs))) * 0.1) * 0.5"
  by (simp add: ColonyPenguin_update_def Let_def case_prod_beta)


text \<open>
  Claim C3. With every draw in \<open>[0, 1)\<close>: \<^verbatim>\<open>pickNewState\<close> resets the timer and maps
  the roll \<open>r\<close> (the first draw) to Idle for \<open>r < 0.6\<close> with a duration in \<open>[2, 6)\<close>, to
  Walking for \<open>0.6 \<le> r < 0.85\<close> with a duration in \<open>[1.5, 4.5)\<close> and a target facing within
  0.75 of the current facing, to Turning for \<open>0.85 \<le> r < 0.95\<close> with a duration in
  \<open>[1, 3)\<close> and a target facing in \<open>[0, 2\<pi>)\<close>, to Looking for \<open>r \<ge> 0.95\<close> with a duration in
  \<open>[2, 4)\<close> and a target tilt within 0.25 of zero. \<^verbatim>\<open>update\<close> ends in one of the four
  states; it picks (state, duration, targets, timer and the remaining draws are those of
  \<^verbatim>\<open>pickNewState\<close>) exactly when the elapsed time \<open>timer + dt\<close> has reached the duration, and
  otherwise only advances the timer and draws nothing.
\<close>

theorem colony_state_machine:
  assumes "\<forall>r \<in> sset rs. 0 \<le> r \<and> r < (1::real)"
  shows
   "(case pickNewState a rs of (b, rs') \<Rightarrow>
       timer b = 0 \<and>
       state b = (if shd rs < 0.6 then IDLE else if shd rs < 0.85 then WALKING
                  else if shd rs < 0.95 then TURNING else LOOKING) \<and>
       (case state b of
          IDLE \<Rightarrow> 2 \<le> stateDuration b \<and> stateDuration b < 6
        | WALKING \<Rightarrow> 1.5 \<le> stateDuration b \<and> stateDuration b < 4.5 \<and>
              - 0.75 \<le> targetRotation b - currentRotation a \<and>
              targetRotation b - currentRotation a \<le> 0.75
        | TURNING \<Rightarrow> 1 \<le> stateDuration b \<and> stateDuration b < 3 \<and>
              0 \<le> targetRotation b \<and> targetRotation b < 2 * pi
        | LOOKING \<Rightarrow> 2 \<le> stateDuration b \<and> stateDuration b < 4 \<and>
              - 0.25 \<le> headTiltTarget b \<and> headTiltTarget b \<le> 0.25)) \<and>
    (case ColonyPenguin_update dt c others self now a rs of (a', rs') \<Rightarrow>
       state a' \<in> {IDLE, WALKING, TURNING, LOOKING} \<and>
       (state a', stateDuration a', timer a', targetRotation a', headTiltTarget a', rs') =
         (if stateDuration a \<le> timer a + dt
          then (case pickNewState (a\<lparr>timer := timer a + dt\<rparr>) rs of (b, rs1) \<Rightarrow>
                  (state b, stateDuration b, timer b, targetRotation b, headTiltTarget b, rs1))
          else (state a, stateDuration a, timer a + dt, targetRotation a, headTiltTarget a, rs)))"
proof -
  have four: "s \<in> {IDLE, WALKING, TURNING, LOOKING}" for s
    by (cases s) simp_all
  from ColonyPenguin_update_control [of dt c others self now a rs] four
  have "case ColonyPenguin_update dt c others self now a rs of (a', rs') \<Rightarrow>
       state a' \<in> {IDLE, WALKING, TURNING, LOOKING} \<and>
       (state a', stateDuration a', timer a', targetRotation a', headTiltTarget a', rs') =
         (if stateDuration a \<le> timer a + dt
          then (case pickNewState (a\<lparr>timer := timer a + dt\<rparr>) rs of (b, rs1) \<Rightarrow>
                  (state b, stateDuration b, timer b, targetRotation b, headTiltTarget b, rs1))
          else (state a, stateDuration a, timer a + dt, targetRotation a, headTiltTarget a, rs))"
    by (simp add: control_def case_prod_beta split: if_splits)
  with pickNewState_table [OF assms, of a] show ?thesis
    by blast
qed

theorem colony_state_machine_witness:
  "state (fst (pickNewState
      idler
      (7 / 10 ## 1 / 2 ## 1 / 2 ## sconst 0))) = WALKING \<and>
   state (fst (ColonyPenguin_update 1 colonyCenter [] 0 0
      idler
      (7 / 10 ## 1 / 2 ## 1 / 2 ## sconst 0))) = IDLE \<and>
   stateDuration (fst (ColonyPenguin_update 2 colonyCenter [] 0 0
      idler
      (7 / 10 ## 1 / 2 ## 1 / 2 ## sconst 0))) = 3"
proof -
  have draws: "\<forall>r \<in> sset (7 / 10 ## 1 / 2 ## 1 / 2 ## sconst 0). 0 \<le> r \<and> r < (1::real)"
    by simp
  show ?thesis
    using colony_state_machine [OF draws, of
      idler 1 colonyCenter "[]" 0 0]
      colony_state_machine [OF draws, of
      idler 2 colonyCenter "[]" 0 0]
    by (simp add: case_prod_beta pickNewState_def Math_random_def idler_def newcomer_def)
qed

section \<open>Colony agents: vertical placement\<close>

lemma updateWalking_position:
  "position (updateWalking dt c others self a) =
     (let th = MathUtils_lerp (currentRotation a) (targetRotation a) (dt * 2);
          forward = Vector3_applyAxisAngle (Vector3 0 0 1) (Vector3 0 1 0) th;
          avoidance = avoidance_loop (position a) self 0 others (Vector3 0 0 0);
          toCenter = Vector3_sub c (position a);
          avoidance = (if Vector3_length toCenter > 5
                       then Vector3_add avoidance
                              (Vector3_multiplyScalar (Vector3_normalize toCenter) 0.1)
                       else avoidance);
          forward = Vector3_normalize (Vector3_add forward avoidance);
          p = Vector3_add (position a) (Vector3_multiplyScalar forward (moveSpeed a * dt))
      in Vector3 (vx p) (vy p + \<bar>cos (walkTime a + dt * waddleSpeed a)\<bar> * 0.03) (vz p))"
  by (simp add: updateWalking_def Let_def)

text \<open>
  Claim C8. After every \<^verbatim>\<open>update\<close>, whatever the state, the height of the agent is
  \<open>sin(x*0.1) * cos(z*0.1) * 0.5\<close> at its new \<open>(x, z)\<close>; and the new position is the same
  for every value of \<^verbatim>\<open>walkTime\<close> and \<^verbatim>\<open>waddleSpeed\<close>, the only inputs of the bob
  \<open>|cos(walkTime)| * 0.03\<close> that a walking update adds before.
\<close>

theorem colony_vertical_placement:
  "vy (position (fst (ColonyPenguin_update dt c others self now a rs))) =
     sin (vx (position (fst (ColonyPenguin_update dt c others self now a rs))) * 0.1) *
     cos (vz (position (fst (ColonyPenguin_update dt c others self now a rs))) * 0.1) * 0.5 \<and>
   position (fst (ColonyPenguin_update dt c others self now (a\<lparr>walkTime := w, waddleSpeed := ws\<rparr>) rs)) =
     position (fst (ColonyPenguin_update dt c others self now a rs))"
proof -
  have "position (fst (ColonyPenguin_update dt c others self now (a\<lparr>walkTime := w, waddleSpeed := ws\<rparr>) rs)) =
     position (fst (ColonyPenguin_update dt c others self now a rs))"
  proof (cases "stateDuration a \<le> timer a + dt")
    case True
    define b where "b = fst (pickNewState (a\<lparr>timer := timer a + dt\<rparr>) rs)"
    have 1: "pickNewState (a\<lparr>walkTime := w, waddleSpeed := ws, timer := timer a + dt\<rparr>) rs =
        (b\<lparr>walkTime := w, waddleSpeed := ws\<rparr>, snd (pickNewState (a\<lparr>timer := timer a + dt\<rparr>) rs))"
      by (simp add: b_def pickNewState_def Math_random_def Let_def)
    show ?thesis
      using True
      by (cases "state b")
         (simp_all add: ColonyPenguin_update_def Let_def 1 case_prod_beta b_def [symmetric]
            updateWalking_position updateIdle_def updateTurning_def updateLooking_def)
  next
    case False
    then show ?thesis
      by (cases "state a")
         (simp_all add: ColonyPenguin_update_def Let_def case_prod_beta
            updateWalking_position updateIdle_def updateTurning_def updateLooking_def)
  qed
  with ColonyPenguin_update_y [of dt c others self now a rs] show ?thesis
    by blast
qed

section \<open>Colony agents: steering of a walking agent\<close>

lemma Vector3_length_eq_0: "Vector3_length v = 0 \<longleftrightarrow> v = Vector3 0 0 0"
proof (cases v)
  case (Vector3 a b c)
  have "a * a + b * b + c * c = 0 \<longleftrightarrow> a = 0 \<and> b = 0 \<and> c = 0"
    using sum_power2_eq_zero_iff [of "a" "b"]
      sum_power2_eq_zero_iff [of "sqrt (a\<^sup>2 + b\<^sup>2)" c]
    by (auto simp: power2_eq_square)
  then show ?thesis
    by (simp add: Vector3 Vector3_length_def)
qed

lemma Vector3_normalize_eq: "Vector3_normalize v = normalization v"
  by (simp add: Vector3_normalize_def normalization_def Vector3_length_eq_0
      Vector3_divideScalar_def Vector3_multiplyScalar_def)

lemma Vector3_length_sub: "Vector3_length (Vector3_sub a b) = Vector3_distanceTo b a"
proof -
  have "(x - y) * (x - y) = (y - x) * (y - x)" for x y :: real
    by (simp add: algebra_simps)
  then show ?thesis
    by (simp add: Vector3_length_def Vector3_sub_def Vector3_distanceTo_def Let_def)
qed

lemma applyAxisAngle_Y:
  "Vector3_applyAxisAngle (Vector3 0 0 1) (Vector3 0 1 0) angle = facing_vector angle"
proof -
  have s: "2 * sin (angle / 2) * cos (angle / 2) = sin angle"
    using sin_double [of "angle / 2"] by simp
  have c: "1 - 2 * (sin (angle / 2) * sin (angle / 2)) = cos angle"
    using cos_double_sin [of "angle / 2"] by (simp add: power2_eq_square)
  have "cos (angle / 2) * (2 * sin (angle / 2)) = sin angle"
    using s by (simp add: mult.commute mult.left_commute)
  moreover have "1 - sin (angle / 2) * (2 * sin (angle / 2)) = cos angle"
    using c by (simp add: mult.commute mult.left_commute)
  ultimately show ?thesis
    by (simp add: Vector3_applyAxisAngle_def Quaternion_setFromAxisAngle_def
        Vector3_applyQuaternion_def facing_vector_def Let_def)
qed

lemma Vector3_add_assoc: "Vector3_add (Vector3_add a b) c = Vector3_add a (Vector3_add b c)"
  by (simp add: Vector3_add_def)

lemma Vector3_add_zero: "Vector3_add a (Vector3 0 0 0) = a" "Vector3_add (Vector3 0 0 0) a = a"
  by (simp_all add: Vector3_add_def)

lemma avoidance_loop_sum:
  "avoidance_loop pos self j others acc =
     Vector3_add acc
       (Vector3_sum
         (map (\<lambda>(j, other).
               Vector3_multiplyScalar (normalization (Vector3_sub pos (position other)))
                 (0.5 / (Vector3_distanceTo pos (position other) + 0.1)))
          (filter (\<lambda>(j, other). j \<noteq> self \<and> Vector3_distanceTo pos (position other) < 1.0)
             (zip [j..<j + length others] others))))"
proof (induction others arbitrary: j acc)
  case Nil
  then show ?case by (simp add: Vector3_sum_def Vector3_add_zero)
next
  case (Cons other rest)
  have upt: "[j..<j + length (other # rest)] = j # [Suc j..<Suc j + length rest]"
    using upt_conv_Cons [of j "j + length (other # rest)"] by simp
  show ?case
    unfolding upt
    by (simp add: Cons.IH Let_def Vector3_sum_def Vector3_add_assoc Vector3_normalize_eq)
qed

lemma avoidance_loop_separation:
  "avoidance_loop pos self 0 others (Vector3 0 0 0) = separation_force pos self others"
  by (simp add: avoidance_loop_sum separation_force_def Vector3_add_zero)

lemma updateWalking_steering:
  "position (updateWalking dt c others self a) =
     (let p = Vector3_add (position a)
                (Vector3_multiplyScalar
                   (steering (MathUtils_lerp (currentRotation a) (targetRotation a) (dt * 2))
                      (position a) self others c)
                   (moveSpeed a * dt))
      in Vector3 (vx p) (vy p + \<bar>cos (walkTime a + dt * waddleSpeed a)\<bar> * 0.03) (vz p))"
  by (simp add: updateWalking_position Let_def applyAxisAngle_Y avoidance_loop_separation
      Vector3_normalize_eq steering_def cohesion_force_def Vector3_length_sub Vector3_add_zero
      Vector3_add_assoc)

lemma pickNewState_keeps:
  "position (fst (pickNewState a rs)) = position a"
  "moveSpeed (fst (pickNewState a rs)) = moveSpeed a"
  "currentRotation (fst (pickNewState a rs)) = currentRotation a"
  by (simp_all add: pickNewState_def Math_random_def Let_def)

lemma ColonyPenguin_update_walking:
  assumes "state (fst (ColonyPenguin_update dt c others self now a rs)) = WALKING"
  shows "\<exists>b. position b = position a \<and> moveSpeed b = moveSpeed a \<and>
             currentRotation b = currentRotation a \<and>
             targetRotation b = targetRotation (fst (ColonyPenguin_update dt c others self now a rs)) \<and>
             position (fst (ColonyPenguin_update dt c others self now a rs)) =
               Vector3 (vx (position (updateWalking dt c others self b)))
                 (sin (vx (position (updateWalking dt c others self b)) * 0.1) *
                  cos (vz (position (updateWalking dt c others self b)) * 0.1) * 0.5)
                 (vz (position (updateWalking dt c others self b))) \<and>
             currentRotation (fst (ColonyPenguin_update dt c others self now a rs)) =
               currentRotation (updateWalking dt c others self b)"
proof -
  define b where "b = fst (if stateDuration a \<le> timer a + dt
      then pickNewState (a\<lparr>timer := timer a + dt\<rparr>) rs else (a\<lparr>timer := timer a + dt\<rparr>, rs))"
  have keeps: "position b = position a" "moveSpeed b = moveSpeed a"
    "currentRotation b = currentRotation a"
    by (simp_all add: b_def pickNewState_keeps)
  have ctl: "control (fst (ColonyPenguin_update dt c others self now a rs)) = control b"
    by (simp add: ColonyPenguin_update_control b_def)
  with assms have w: "state b = WALKING"
    by (simp add: control_def)
  have u: "fst (ColonyPenguin_update dt c others self now a rs) =
      (updateWalking dt c others self b)\<lparr>position :=
         Vector3 (vx (position (updateWalking dt c others self b)))
                 (sin (vx (position (updateWalking dt c others self b)) * 0.1) *
                  cos (vz (position (updateWalking dt c others self b)) * 0.1) * 0.5)
                 (vz (position (updateWalking dt c others self b)))\<rparr>"
    using w
    by (simp add: ColonyPenguin_update_def Let_def b_def case_prod_beta
        cong: PenguinState.case_cong split: if_splits)
  from ctl have "targetRotation b = targetRotation (fst (ColonyPenguin_update dt c others self now a rs))"
    by (simp add: control_def)
  with keeps u show ?thesis
    by (intro exI [of _ b]) simp
qed

lemma currentRotation_updateWalking:
  "currentRotation (updateWalking dt c others self b) =
     MathUtils_lerp (currentRotation b) (targetRotation b) (dt * 2)"
  "rotation_y (updateWalking dt c others self b) =
     MathUtils_lerp (currentRotation b) (targetRotation b) (dt * 2)"
  by (simp_all add: updateWalking_def Let_def)

text \<open>
  Claim C4, amended. When an \<^verbatim>\<open>update(dt)\<close> runs the walking behaviour (the agent is
  Walking after the call), the facing angle moves towards the target by the factor
  \<open>dt * 2\<close>, and the \<open>x\<close> and \<open>z\<close> coordinates of the position change by \<open>moveSpeed * dt\<close>
  times the \<open>x\<close> and \<open>z\<close> components of the normalization of forward + separation +
  cohesion: forward the unit vector of the new facing angle, separation and cohesion
  taken at the old position, with distances in space. The \<open>y\<close> coordinate is not
  integrated; the placement pass sets it.
\<close>

theorem walking_step:
  assumes "state (fst (ColonyPenguin_update dt c others self now a rs)) = WALKING"
  shows
   "currentRotation (fst (ColonyPenguin_update dt c others self now a rs)) =
      MathUtils_lerp (currentRotation a)
        (targetRotation (fst (ColonyPenguin_update dt c others self now a rs))) (dt * 2) \<and>
    vx (position (fst (ColonyPenguin_update dt c others self now a rs))) - vx (position a) =
      moveSpeed a * dt *
      vx (steering (currentRotation (fst (ColonyPenguin_update dt c others self now a rs)))
            (position a) self others c) \<and>
    vz (position (fst (ColonyPenguin_update dt c others self now a rs))) - vz (position a) =
      moveSpeed a * dt *
      vz (steering (currentRotation (fst (ColonyPenguin_update dt c others self now a rs)))
            (position a) self others c)"
proof -
  from ColonyPenguin_update_walking [OF assms] obtain b where
    b: "position b = position a" "moveSpeed b = moveSpeed a"
       "currentRotation b = currentRotation a"
       "targetRotation b = targetRotation (fst (ColonyPenguin_update dt c others self now a rs))"
    and p: "position (fst (ColonyPenguin_update dt c others self now a rs)) =
               Vector3 (vx (position (updateWalking dt c others self b)))
                 (sin (vx (position (updateWalking dt c others self b)) * 0.1) *
                  cos (vz (position (updateWalking dt c others self b)) * 0.1) * 0.5)
                 (vz (position (updateWalking dt c others self b)))"
    and r: "currentRotation (fst (ColonyPenguin_update dt c others self now a rs)) =
               currentRotation (updateWalking dt c others self b)"
    by blast
  have rot: "currentRotation (fst (ColonyPenguin_update dt c others self now a rs)) =
      MathUtils_lerp (currentRotation a)
        (targetRotation (fst (ColonyPenguin_update dt c others self now a rs))) (dt * 2)"
    by (simp add: r currentRotation_updateWalking b)
  have "vx (position (fst (ColonyPenguin_update dt c others self now a rs))) - vx (position a) =
      moveSpeed a * dt *
      vx (steering (currentRotation (fst (ColonyPenguin_update dt c others self now a rs)))
            (position a) self others c)"
    unfolding rot unfolding p
    by (simp add: updateWalking_steering Let_def b Vector3_add_def Vector3_multiplyScalar_def)
  moreover have "vz (position (fst (ColonyPenguin_update dt c others self now a rs))) - vz (position a) =
      moveSpeed a * dt *
      vz (steering (currentRotation (fst (ColonyPenguin_update dt c others self now a rs)))
            (position a) self others c)"
    unfolding rot unfolding p
    by (simp add: updateWalking_steering Let_def b Vector3_add_def Vector3_multiplyScalar_def)
  ultimately show ?thesis using rot by blast
qed

lemma newcomer_constructed:
  "ColonyPenguin_new (Vector3 3 0 0) (0 ## 0 ## 0 ## 7 / 10 ## 1 / 6 ## 1 / 2 ## rs) = (newcomer, rs)"
  by (simp add: ColonyPenguin_new_def pickNewState_def Math_random_def newcomer_def)

lemma sqrt_9: "sqrt 9 = 3"
  using real_sqrt_abs [of 3] by simp

lemma first_step_position:
  "position (fst (ColonyPenguin_update 1 colonyCenter
      [newcomer] 0 0
      newcomer (sconst 0))) =
   Vector3 3 (sin (3 / 10) * cos (1 / 20) * (1 / 2)) (1 / 2)"
  by (simp add: newcomer_def ColonyPenguin_update_def Let_def updateWalking_position colonyCenter_def
      applyAxisAngle_Y facing_vector_def Vector3_normalize_eq normalization_def
      Vector3_length_def Vector3_sub_def Vector3_add_def Vector3_multiplyScalar_def
      MathUtils_lerp_def sqrt_9)

lemma first_step_rotation:
  "currentRotation (fst (ColonyPenguin_update 1 colonyCenter
      [newcomer] 0 0
      newcomer (sconst 0))) = 0 \<and>
   state (fst (ColonyPenguin_update 1 colonyCenter
      [newcomer] 0 0
      newcomer (sconst 0))) = WALKING"
  by (simp add: newcomer_def ColonyPenguin_update_def Let_def updateWalking_def MathUtils_lerp_def)

lemma first_step_steering:
  "steering 0 (position newcomer) 0
      [newcomer] colonyCenter = Vector3 0 0 1"
  by (simp add: newcomer_def steering_def facing_vector_def separation_force_def cohesion_force_def
      Vector3_sum_def colonyCenter_def Vector3_distanceTo_def Vector3_add_def normalization_def
      Vector3_length_def sqrt_9)

lemma first_step_height: "0 < sin (3 / 10) * cos (1 / 20 :: real)"
proof -
  have "(3 / 10 :: real) < pi" "(1 / 20 :: real) < pi / 2"
    using pi_ge_two by simp_all
  then have "0 < sin (3 / 10 :: real)" "0 < cos (1 / 20 :: real)"
    by (simp_all add: sin_gt_zero cos_gt_zero)
  then show ?thesis by simp
qed


theorem walking_step_witness:
  "state (fst (ColonyPenguin_update 1 colonyCenter [newcomer] 0 0 newcomer (sconst 0))) = WALKING \<and>
   vx (position (fst (ColonyPenguin_update 1 colonyCenter [newcomer] 0 0 newcomer (sconst 0)))) = 3 \<and>
   vz (position (fst (ColonyPenguin_update 1 colonyCenter [newcomer] 0 0 newcomer (sconst 0)))) = 1 / 2"
proof -
  have w: "state (fst (ColonyPenguin_update 1 colonyCenter [newcomer] 0 0 newcomer (sconst 0))) = WALKING"
    using first_step_rotation by simp
  from walking_step [OF w] w show ?thesis
    by (simp add: first_step_rotation first_step_steering) (simp add: newcomer_def)
qed

text \<open>
  Claim C4 as stated fails: on its first update the agent \<open>newcomer\<close> moves by
  \<open>(0, sin(0.3) * cos(0.05) * 0.5, 0.5)\<close>, while \<open>moveSpeed * dt\<close> times the normalised
  steering vector is \<open>(0, 0, 0.5)\<close>.
\<close>

theorem walking_step_counterexample:
  "Vector3_sub (position (fst (ColonyPenguin_update 1 colonyCenter [newcomer] 0 0 newcomer (sconst 0))))
       (position newcomer) \<noteq>
   Vector3_multiplyScalar
     (steering (currentRotation (fst (ColonyPenguin_update 1 colonyCenter [newcomer] 0 0 newcomer (sconst 0))))
        (position newcomer) 0 [newcomer] colonyCenter)
     (moveSpeed newcomer * 1)"
proof -
  have "vy (Vector3_sub (position (fst (ColonyPenguin_update 1 colonyCenter [newcomer] 0 0 newcomer (sconst 0))))
       (position newcomer)) = sin (3 / 10) * cos (1 / 20) * (1 / 2)"
    by (simp add: first_step_position Vector3_sub_def) (simp add: newcomer_def)
  moreover have "vy (Vector3_multiplyScalar
     (steering (currentRotation (fst (ColonyPenguin_update 1 colonyCenter [newcomer] 0 0 newcomer (sconst 0))))
        (position newcomer) 0 [newcomer] colonyCenter)
     (moveSpeed newcomer * 1)) = 0"
    by (simp add: first_step_rotation first_step_steering Vector3_multiplyScalar_def)
  ultimately show ?thesis
    using first_step_height by auto
qed


text \<open>The first step of \<open>newcomer\<close> again, for the placement pass: its new height is the
  ground field at its new \<open>(x, z) = (3, 1/2)\<close>.\<close>

theorem colony_vertical_placement_witness:
  "vy (position (fst (ColonyPenguin_update 1 colonyCenter [newcomer] 0 0 newcomer (sconst 0)))) =
     sin (3 / 10) * cos (1 / 20) * (1 / 2)"
  using colony_vertical_placement [of 1 colonyCenter "[newcomer]" 0 0 newcomer "sconst 0"]
  by (simp add: first_step_position)

section \<open>Visibility fader\<close>

lemma smoothstep_is_cubic:
  assumes "lo < hi"
  shows "MathUtils_smoothstep x lo hi = smoothstep_cubic x lo hi"
proof -
  consider "x \<le> lo" | "hi \<le> x" | "lo < x" "x < hi" by linarith
  then show ?thesis
  proof cases
    case 1
    then have "(x - lo) / (hi - lo) \<le> 0"
      using assms by (simp add: divide_le_0_iff)
    then have "max 0 (min 1 ((x - lo) / (hi - lo))) = 0" by simp
    with 1 show ?thesis
      by (simp add: MathUtils_smoothstep_def smoothstep_cubic_def)
  next
    case 2
    then have "1 \<le> (x - lo) / (hi - lo)"
      using assms by simp
    then have "max 0 (min 1 ((x - lo) / (hi - lo))) = 1" by simp
    with 2 assms show ?thesis
      by (simp add: MathUtils_smoothstep_def smoothstep_cubic_def)
  next
    case 3
    then have "0 < (x - lo) / (hi - lo)" "(x - lo) / (hi - lo) < 1"
      using assms by simp_all
    then have "max 0 (min 1 ((x - lo) / (hi - lo))) = (x - lo) / (hi - lo)" by simp
    with 3 show ?thesis
      by (simp add: MathUtils_smoothstep_def smoothstep_cubic_def Let_def
          power2_eq_square power3_eq_cube algebra_simps)
  qed
qed

lemma length_forEach_update:
  "length (fst (forEach_update dt clock i ps rs)) = length ps"
proof (induction dt clock i ps rs rule: forEach_update.induct)
  case (1 dt clock i ps rs)
  show ?case
  proof (cases "i < length ps")
    case True
    obtain a rs' where u: "ColonyPenguin_update dt colonyCenter ps i (clock i) (ps ! i) rs = (a, rs')"
      by (cases "ColonyPenguin_update dt colonyCenter ps i (clock i) (ps ! i) rs")
    from "1.IH" [OF True u [symmetric]] True u show ?thesis
      by (subst forEach_update.simps) simp
  next
    case False
    then show ?thesis by (subst forEach_update.simps) simp
  qed
qed

lemma Vector3_length_origin: "Vector3_length p = Vector3_distanceTo p colonyCenter"
  by (simp add: Vector3_length_def Vector3_distanceTo_def colonyCenter_def Let_def)

lemma ColonyManager_update_map:
  "fst (ColonyManager_update dt playerPos clock penguins rs) =
     map (setOpacity (fade_opacity (Vector3_distanceTo playerPos colonyCenter)))
       (fst (forEach_update dt clock 0 penguins rs))"
  using smoothstep_is_cubic [of 5 30 "Vector3_length playerPos"]
  by (simp add: ColonyManager_update_def Let_def case_prod_beta fade_opacity_def
      Vector3_length_origin)

text \<open>
  Claim C6. A frame of the manager keeps the number of agents and leaves every agent
  with the same opacity \<open>1 - smoothstep(d, 5, 30)\<close>, \<open>d\<close> the distance of the player from
  the colony origin and smoothstep the clamped cubic \<open>3t\<^sup>2 - 2t\<^sup>3\<close>; an agent is not
  visible exactly when that opacity is at most 0.01; the opacity is 1 at \<open>d = 5\<close>, 0 at
  \<open>d = 30\<close> and 0.5 at \<open>d = 17.5\<close>.
\<close>

theorem colony_fade:
  "length (fst (ColonyManager_update dt playerPos clock penguins rs)) = length penguins \<and>
   (\<forall>p \<in> set (fst (ColonyManager_update dt playerPos clock penguins rs)).
      material_opacity p = fade_opacity (Vector3_distanceTo playerPos colonyCenter) \<and>
      (\<not> visible p \<longleftrightarrow> material_opacity p \<le> 0.01)) \<and>
   fade_opacity 5 = 1 \<and> fade_opacity 30 = 0 \<and> fade_opacity 17.5 = 0.5"
proof -
  have "fade_opacity 5 = 1" "fade_opacity 30 = 0"
    by (simp_all add: fade_opacity_def smoothstep_cubic_def)
  moreover have "fade_opacity 17.5 = 0.5"
    by (simp add: fade_opacity_def smoothstep_cubic_def power2_eq_square power3_eq_cube)
  moreover have "length (fst (ColonyManager_update dt playerPos clock penguins rs)) = length penguins"
    by (simp add: ColonyManager_update_map length_forEach_update)
  moreover have "\<forall>p \<in> set (fst (ColonyManager_update dt playerPos clock penguins rs)).
      material_opacity p = fade_opacity (Vector3_distanceTo playerPos colonyCenter) \<and>
      (\<not> visible p \<longleftrightarrow> material_opacity p \<le> 0.01)"
    by (auto simp: ColonyManager_update_map setOpacity_def)
  ultimately show ?thesis by blast
qed

lemma hd_in_set_length: "length xs = Suc n \<Longrightarrow> hd xs \<in> set xs"
  by (cases xs) simp_all

theorem colony_fade_witness:
  "material_opacity (hd (fst (ColonyManager_update 1 (Vector3 0 0 0) (\<lambda>i. 0) [newcomer] (sconst 0)))) = 1 \<and>
   visible (hd (fst (ColonyManager_update 1 (Vector3 0 0 0) (\<lambda>i. 0) [newcomer] (sconst 0))))"
proof -
  note t = colony_fade [of 1 "Vector3 0 0 0" "\<lambda>i. 0" "[newcomer]" "sconst 0"]
  from t have "hd (fst (ColonyManager_update 1 (Vector3 0 0 0) (\<lambda>i. 0) [newcomer] (sconst 0)))
      \<in> set (fst (ColonyManager_update 1 (Vector3 0 0 0) (\<lambda>i. 0) [newcomer] (sconst 0)))"
    by (intro hd_in_set_length [of _ 0]) simp
  with t have "material_opacity (hd (fst (ColonyManager_update 1 (Vector3 0 0 0) (\<lambda>i. 0) [newcomer] (sconst 0))))
       = fade_opacity (Vector3_distanceTo (Vector3 0 0 0) colonyCenter) \<and>
     (\<not> visible (hd (fst (ColonyManager_update 1 (Vector3 0 0 0) (\<lambda>i. 0) [newcomer] (sconst 0)))) \<longleftrightarrow>
       material_opacity (hd (fst (ColonyManager_update 1 (Vector3 0 0 0) (\<lambda>i. 0) [newcomer] (sconst 0)))) \<le> 0.01)"
    by blast
  moreover have "fade_opacity (Vector3_distanceTo (Vector3 0 0 0) colonyCenter) = 1"
    by (simp add: fade_opacity_def smoothstep_cubic_def Vector3_distanceTo_def colonyCenter_def)
  ultimately show ?thesis by auto
qed

section \<open>Negative time steps\<close>

lemma idler_constructed:
  "ColonyPenguin_new (Vector3 3 0 0) (0 ## 0 ## 0 ## 1 / 2 ## 0 ## rs) = (idler, rs)"
  by (simp add: ColonyPenguin_new_def pickNewState_def Math_random_def newcomer_def idler_def)

lemma footprints_Penguin_update_standing:
  "footprints (Penguin_update dt False sm p) = footprints (updateFootprints dt p)"
  by (simp add: Penguin_update_def Let_def)

text \<open>
  Claim C7, amended. Neither \<^verbatim>\<open>update\<close> validates \<open>dt\<close>. For \<open>dt < 0\<close> the decay pass of
  \<^verbatim>\<open>Penguin.update\<close> (here for a standing penguin, which spawns nothing) adds
  \<open>0.02 * |dt|\<close> to the opacity of every footprint and keeps those that are still positive,
  and \<^verbatim>\<open>ColonyPenguin.update\<close> lowers the elapsed state time by \<open>|dt|\<close> whenever the
  lowered time is below the duration (no transition).
\<close>

theorem negative_dt_integrates:
  assumes "dt < 0"
  shows
   "footprints (Penguin_update dt False sm p) =
      filter (\<lambda>f. 0 < fp_opacity f)
        (map (\<lambda>f. f\<lparr>fp_opacity := fp_opacity f + 0.02 * \<bar>dt\<bar>\<rparr>) (footprints p)) \<and>
    (timer a + dt < stateDuration a \<longrightarrow>
       timer (fst (ColonyPenguin_update dt c others self now a rs)) = timer a - \<bar>dt\<bar>)"
proof -
  have abs: "\<bar>dt\<bar> = - dt"
    using assms by simp
  have "footprints (Penguin_update dt False sm p) =
      filter (\<lambda>f. 0 < fp_opacity f)
        (map (\<lambda>f. f\<lparr>fp_opacity := fp_opacity f + 0.02 * \<bar>dt\<bar>\<rparr>) (footprints p))"
    unfolding abs by (simp add: footprints_Penguin_update_standing footprints_updateFootprints)
  moreover have "timer (fst (ColonyPenguin_update dt c others self now a rs)) = timer a - \<bar>dt\<bar>"
    if "timer a + dt < stateDuration a"
    using ColonyPenguin_update_control(1) [of dt c others self now a rs] that
    unfolding abs by (simp add: control_def)
  ultimately show ?thesis by blast
qed

theorem negative_dt_integrates_witness:
  "map fp_opacity (footprints (Penguin_update (- 1) False 1
       (Penguin_run [Footprint_image_loaded, Call_spawnFootprint (Vector3 0 0 0) True]))) = [51 / 50] \<and>
   timer (fst (ColonyPenguin_update (- 1) colonyCenter [idler] 0 0 idler (sconst 0))) = - 1"
proof -
  have neg: "(- 1 :: real) < 0" by simp
  from negative_dt_integrates [OF neg, of 1
      "Penguin_run [Footprint_image_loaded, Call_spawnFootprint (Vector3 0 0 0) True]"
      idler colonyCenter "[idler]" 0 0 "sconst 0"]
  show ?thesis
    by (simp add: Penguin_run_one_step idler_def newcomer_def)
qed

text \<open>
  Claim C7 as stated fails: \<^verbatim>\<open>update(-1)\<close> differs from \<^verbatim>\<open>update(0)\<close> on a trail with one
  new footprint, whose opacity goes from 1 to 1.02, and it takes the elapsed state time of
  the agent \<open>idler\<close> from 0 to -1.
\<close>

theorem negative_dt_counterexample:
  "Penguin_update (- 1) False 1
       (Penguin_run [Footprint_image_loaded, Call_spawnFootprint (Vector3 0 0 0) True]) \<noteq>
   Penguin_update 0 False 1
       (Penguin_run [Footprint_image_loaded, Call_spawnFootprint (Vector3 0 0 0) True]) \<and>
   map fp_opacity (footprints (Penguin_update (- 1) False 1
       (Penguin_run [Footprint_image_loaded, Call_spawnFootprint (Vector3 0 0 0) True]))) = [51 / 50] \<and>
   map fp_opacity (footprints
       (Penguin_run [Footprint_image_loaded, Call_spawnFootprint (Vector3 0 0 0) True])) = [1] \<and>
   timer (fst (ColonyPenguin_update (- 1) colonyCenter [idler] 0 0 idler (sconst 0))) = - 1 \<and>
   timer (fst (ColonyPenguin_update 0 colonyCenter [idler] 0 0 idler (sconst 0))) = 0 \<and>
   timer idler = 0"
proof -
  let ?p = "Penguin_run [Footprint_image_loaded, Call_spawnFootprint (Vector3 0 0 0) True]"
  have a: "map fp_opacity (footprints (Penguin_update (- 1) False 1 ?p)) = [51 / 50]"
    by (simp add: footprints_Penguin_update_standing footprints_updateFootprints Penguin_run_one_step)
  have b: "map fp_opacity (footprints (Penguin_update 0 False 1 ?p)) = [1]"
    by (simp add: footprints_Penguin_update_standing footprints_updateFootprints Penguin_run_one_step)
  from a b have ne: "Penguin_update (- 1) False 1 ?p \<noteq> Penguin_update 0 False 1 ?p"
    by auto
  have c: "map fp_opacity (footprints ?p) = [1]"
    by (simp add: Penguin_run_one_step)
  have d: "timer (fst (ColonyPenguin_update (- 1) colonyCenter [idler] 0 0 idler (sconst 0))) = - 1"
    "timer (fst (ColonyPenguin_update 0 colonyCenter [idler] 0 0 idler (sconst 0))) = 0"
    "timer idler = 0"
    using ColonyPenguin_update_control(1) [of "- 1" colonyCenter "[idler]" 0 0 idler "sconst 0"]
      ColonyPenguin_update_control(1) [of 0 colonyCenter "[idler]" 0 0 idler "sconst 0"]
    by (simp_all add: control_def idler_def newcomer_def)
  from ne a c d show ?thesis by blast
qed

section \<open>Colony agents: what the wall clock can change\<close>

lemma no_roll_fields:
  "position (no_roll a) = position a" "rotation_x (no_roll a) = rotation_x a"
  "rotation_y (no_roll a) = rotation_y a" "state (no_roll a) = state a"
  "timer (no_roll a) = timer a" "stateDuration (no_roll a) = stateDuration a"
  by (simp_all add: no_roll_def)

lemma avoidance_loop_no_roll:
  "avoidance_loop pos self j (map no_roll others) acc = avoidance_loop pos self j others acc"
  by (induction others arbitrary: j acc) (simp_all add: no_roll_fields Let_def)

lemma behaviours_no_roll:
  "no_roll (updateIdle dt now a) = no_roll (updateIdle dt 0 (no_roll a))"
  "no_roll (updateTurning dt now a) = no_roll (updateTurning dt 0 (no_roll a))"
  "no_roll (updateLooking dt a) = no_roll (updateLooking dt (no_roll a))"
  "no_roll (updateWalking dt c others self a) =
     no_roll (updateWalking dt c (map no_roll others) self (no_roll a))"
  by (simp_all add: updateIdle_def updateTurning_def updateLooking_def updateWalking_def
      Let_def avoidance_loop_no_roll no_roll_def)

lemma ColonyPenguin_update_parts:
  "ColonyPenguin_update dt c others self now a rs =
     (place (behave dt c others self now (fst (elapse dt a rs))), snd (elapse dt a rs))"
  by (simp add: ColonyPenguin_update_def Let_def elapse_def behave_def place_def case_prod_beta
      cong: PenguinState.case_cong)

lemma elapse_no_roll:
  "elapse dt (no_roll a) rs = (no_roll (fst (elapse dt a rs)), snd (elapse dt a rs))"
  by (simp add: elapse_def no_roll_def pickNewState_def Math_random_def Let_def)

lemma behave_no_roll:
  "no_roll (behave dt c others self now a) =
     no_roll (behave dt c (map no_roll others) self 0 (no_roll a))"
proof (cases "state a")
  case IDLE
  then show ?thesis
    using behaviours_no_roll(1) [of dt now a] by (simp add: behave_def no_roll_fields)
next
  case WALKING
  then show ?thesis
    using behaviours_no_roll(4) [of dt c others self a] by (simp add: behave_def no_roll_fields)
next
  case TURNING
  then show ?thesis
    using behaviours_no_roll(2) [of dt now a] by (simp add: behave_def no_roll_fields)
next
  case LOOKING
  then show ?thesis
    using behaviours_no_roll(3) [of dt a] by (simp add: behave_def no_roll_fields)
qed

lemma place_no_roll: "no_roll (place a) = place (no_roll a)"
  by (simp add: place_def no_roll_def)

lemma ColonyPenguin_update_no_roll:
  "no_roll (fst (ColonyPenguin_update dt c others self now a rs)) =
     no_roll (fst (ColonyPenguin_update dt c (map no_roll others) self 0 (no_roll a) rs))"
  "snd (ColonyPenguin_update dt c others self now a rs) =
     snd (ColonyPenguin_update dt c (map no_roll others) self 0 (no_roll a) rs)"
  by (simp_all add: ColonyPenguin_update_parts elapse_no_roll place_no_roll
      behave_no_roll [of dt c others self now])

lemma ColonyPenguin_update_agree:
  assumes "map no_roll ps = map no_roll qs" and "i < length ps"
  shows "no_roll (fst (ColonyPenguin_update dt c ps i now (ps ! i) rs)) =
         no_roll (fst (ColonyPenguin_update dt c qs i now' (qs ! i) rs))"
    and "snd (ColonyPenguin_update dt c ps i now (ps ! i) rs) =
         snd (ColonyPenguin_update dt c qs i now' (qs ! i) rs)"
proof -
  from assms have i: "i < length qs"
    by (metis length_map)
  from assms i have e: "no_roll (ps ! i) = no_roll (qs ! i)"
    by (metis nth_map)
  show "no_roll (fst (ColonyPenguin_update dt c ps i now (ps ! i) rs)) =
         no_roll (fst (ColonyPenguin_update dt c qs i now' (qs ! i) rs))"
    by (subst (1 2) ColonyPenguin_update_no_roll(1)) (simp add: assms(1) e)
  show "snd (ColonyPenguin_update dt c ps i now (ps ! i) rs) =
         snd (ColonyPenguin_update dt c qs i now' (qs ! i) rs)"
    by (subst (1 2) ColonyPenguin_update_no_roll(2)) (simp add: assms(1) e)
qed

lemma forEach_update_step:
  "i < length ps \<Longrightarrow>
   forEach_update dt clock i ps rs =
     forEach_update dt clock (Suc i)
       (ps[i := fst (ColonyPenguin_update dt colonyCenter ps i (clock i) (ps ! i) rs)])
       (snd (ColonyPenguin_update dt colonyCenter ps i (clock i) (ps ! i) rs))"
  by (subst forEach_update.simps) (simp add: case_prod_beta)

lemma forEach_update_stop:
  "\<not> i < length ps \<Longrightarrow> forEach_update dt clock i ps rs = (ps, rs)"
  by (subst forEach_update.simps) simp

lemma forEach_update_agree:
  "map no_roll ps = map no_roll qs \<Longrightarrow>
   map no_roll (fst (forEach_update dt clock i ps rs)) =
     map no_roll (fst (forEach_update dt clock' i qs rs)) \<and>
   snd (forEach_update dt clock i ps rs) = snd (forEach_update dt clock' i qs rs)"
proof (induction dt clock i ps rs arbitrary: qs rule: forEach_update.induct)
  case (1 dt clock i ps rs)
  from "1.prems" have len: "length qs = length ps"
    by (metis length_map)
  show ?case
  proof (cases "i < length ps")
    case True
    then have iq: "i < length qs" by (simp add: len)
    let ?u = "ColonyPenguin_update dt colonyCenter ps i (clock i) (ps ! i) rs"
    let ?v = "ColonyPenguin_update dt colonyCenter qs i (clock' i) (qs ! i) rs"
    from ColonyPenguin_update_agree [OF "1.prems" True, of dt colonyCenter "clock i" rs "clock' i"]
    have ab: "no_roll (fst ?u) = no_roll (fst ?v)" and rs: "snd ?u = snd ?v"
      by simp_all
    from "1.prems" ab have m: "map no_roll (ps[i := fst ?u]) = map no_roll (qs[i := fst ?v])"
      by (simp add: map_update)
    have "(fst ?u, snd ?u) = ?u" by simp
    from "1.IH" [OF True this m]
    show ?thesis
      unfolding forEach_update_step [OF True] forEach_update_step [OF iq] rs .
  next
    case False
    then have "\<not> i < length qs" by (simp add: len)
    with False "1.prems" show ?thesis
      by (simp add: forEach_update_stop)
  qed
qed

lemma no_roll_setOpacity: "no_roll (setOpacity opacity a) = no_roll a"
  by (simp add: no_roll_def setOpacity_def)

lemma ColonyManager_update_agree:
  assumes "map no_roll ps = map no_roll qs"
  shows "map no_roll (fst (ColonyManager_update dt playerPos clock ps rs)) =
           map no_roll (fst (ColonyManager_update dt playerPos' clock' qs rs))"
    and "snd (ColonyManager_update dt playerPos clock ps rs) =
           snd (ColonyManager_update dt playerPos' clock' qs rs)"
  using forEach_update_agree [OF assms, of dt clock 0 rs clock']
  by (simp_all add: ColonyManager_update_def Let_def case_prod_beta no_roll_setOpacity comp_def)

lemma ColonyManager_run_agree:
  "map fst frames = map fst frames' \<Longrightarrow> map no_roll ps = map no_roll qs \<Longrightarrow>
   map no_roll (fst (ColonyManager_run frames ps rs)) =
     map no_roll (fst (ColonyManager_run frames' qs rs)) \<and>
   snd (ColonyManager_run frames ps rs) = snd (ColonyManager_run frames' qs rs)"
proof (induction frames arbitrary: frames' ps qs rs)
  case Nil
  then show ?case by simp
next
  case (Cons f frames)
  from Cons.prems(1) obtain f' rest where fr: "frames' = f' # rest"
    and d: "fst f = fst f'" and r: "map fst frames = map fst rest"
    by (cases frames') auto
  obtain dt playerPos clock where f: "f = (dt, playerPos, clock)"
    by (cases f)
  obtain playerPos' clock' where f': "f' = (dt, playerPos', clock')"
    using d f by (cases f') auto
  note step = ColonyManager_update_agree [OF Cons.prems(2), of dt playerPos clock rs playerPos' clock']
  from Cons.IH [OF r step(1)] step(2)
  show ?case
    by (simp add: fr f f' case_prod_beta)
qed

text \<open>
  Claim C9, amended. Two runs of the manager from the same agents, with the same \<open>dt\<close>
  in every frame and the same draws, end with the same positions, the same head tilt
  \<^verbatim>\<open>rotation.x\<close> and the same facing \<^verbatim>\<open>rotation.y\<close> of every agent (indeed with the
  same agents up to roll, opacity and visibility), and with the same remaining draws,
  whatever the wall clock reads and wherever the player stands. The body roll
  \<^verbatim>\<open>rotation.z\<close> is left out: Idle and Turning compute it from \<^verbatim>\<open>Date.now()\<close>.
\<close>

theorem colony_motion_deterministic:
  assumes "map fst frames = map fst frames'"
  shows "map (\<lambda>a. (position a, rotation_x a, rotation_y a))
           (fst (ColonyManager_run frames penguins rs)) =
         map (\<lambda>a. (position a, rotation_x a, rotation_y a))
           (fst (ColonyManager_run frames' penguins rs)) \<and>
         map no_roll (fst (ColonyManager_run frames penguins rs)) =
           map no_roll (fst (ColonyManager_run frames' penguins rs)) \<and>
         snd (ColonyManager_run frames penguins rs) = snd (ColonyManager_run frames' penguins rs)"
proof -
  from ColonyManager_run_agree [OF assms refl, of penguins rs]
  have n: "map no_roll (fst (ColonyManager_run frames penguins rs)) =
     map no_roll (fst (ColonyManager_run frames' penguins rs))"
    and s: "snd (ColonyManager_run frames penguins rs) = snd (ColonyManager_run frames' penguins rs)"
    by simp_all
  have m: "map (\<lambda>a. (position a, rotation_x a, rotation_y a)) xs =
        map (\<lambda>a. (position a, rotation_x a, rotation_y a)) (map no_roll xs)" for xs
    by (simp add: no_roll_fields comp_def)
  have "map (\<lambda>a. (position a, rotation_x a, rotation_y a))
           (fst (ColonyManager_run frames penguins rs)) =
         map (\<lambda>a. (position a, rotation_x a, rotation_y a))
           (fst (ColonyManager_run frames' penguins rs))"
    by (subst m, subst (2) m) (simp only: n)
  with n s show ?thesis by blast
qed

lemma idle_frame_roll:
  "map rotation_z (fst (ColonyManager_run [(1, playerPos, \<lambda>i. n)] [idler] (sconst 0))) =
     [2 * (sin (real_of_int n * 0.001) * 0.02)]"
  by (simp add: ColonyManager_update_def Let_def case_prod_beta forEach_update_step
      forEach_update_stop ColonyPenguin_update_parts elapse_def behave_def place_def
      updateIdle_def setOpacity_def idler_def newcomer_def MathUtils_lerp_def)

theorem colony_motion_deterministic_witness:
  "map (\<lambda>a. (position a, rotation_x a, rotation_y a))
     (fst (ColonyManager_run [(1, Vector3 0 0 0, \<lambda>i. 0)] [idler] (sconst 0))) =
   map (\<lambda>a. (position a, rotation_x a, rotation_y a))
     (fst (ColonyManager_run [(1, Vector3 0 0 40, \<lambda>i. 1000)] [idler] (sconst 0)))"
proof -
  have "map fst [(1 :: real, Vector3 0 0 0, \<lambda>i :: nat. 0 :: int)] =
        map fst [(1, Vector3 0 0 40, \<lambda>i. 1000)]"
    by simp
  from colony_motion_deterministic [OF this] show ?thesis
    by blast
qed

text \<open>
  Claim C9 as stated fails: one frame with \<open>dt = 1\<close> on the idle agent \<open>idler\<close>, the same
  draws, gives the roll 0 when \<^verbatim>\<open>Date.now()\<close> is 0 and \<open>0.04 * sin 1\<close> when it is 1000.
\<close>

theorem colony_roll_counterexample:
  "map rotation_z (fst (ColonyManager_run [(1, Vector3 0 0 0, \<lambda>i. 0)] [idler] (sconst 0))) \<noteq>
   map rotation_z (fst (ColonyManager_run [(1, Vector3 0 0 0, \<lambda>i. 1000)] [idler] (sconst 0)))"
proof -
  have "(1 :: real) < pi"
    using pi_ge_two by simp
  then have "0 < sin (1 :: real)"
    by (simp add: sin_gt_zero)
  then show ?thesis
    unfolding idle_frame_roll by simp
qed


section \<open>Mountain mesh: the deformation is a map over the lattice\<close>

lemma deformVertices_prefix:
  "n \<le> length pos \<Longrightarrow>
   fold (\<lambda>i pos. pos[i := deformVertex scale heightScale seed (pos ! i)]) [0..<n] pos =
     map (deformVertex scale heightScale seed) (take n pos) @ drop n pos"
proof (induction n)
  case 0
  then show ?case by simp
next
  case (Suc n)
  then have n: "n < length pos" by simp
  let ?done = "map (deformVertex scale heightScale seed) (take n pos)"
  have at: "(?done @ drop n pos) ! n = pos ! n"
    using n by (simp add: nth_append)
  have "(?done @ drop n pos)[n := deformVertex scale heightScale seed (pos ! n)] =
        ?done @ (drop n pos)[0 := deformVertex scale heightScale seed (pos ! n)]"
    using n by (simp add: list_update_append)
  also have "(drop n pos)[0 := deformVertex scale heightScale seed (pos ! n)] =
        deformVertex scale heightScale seed (pos ! n) # drop (Suc n) pos"
    using n by (simp add: Cons_nth_drop_Suc [symmetric])
  finally have upd: "(?done @ drop n pos)[n := deformVertex scale heightScale seed (pos ! n)] =
        map (deformVertex scale heightScale seed) (take (Suc n) pos) @ drop (Suc n) pos"
    using n by (simp add: take_Suc_conv_app_nth)
  from Suc n show ?case
    by (simp add: at upd)
qed

lemma deformVertices_map:
  "deformVertices scale heightScale seed pos = map (deformVertex scale heightScale seed) pos"
  using deformVertices_prefix [of "length pos" pos scale heightScale seed]
  by (simp add: deformVertices_def)

lemma deformVertex_ignores_z:
  "deformVertex scale heightScale seed (Vector3 x y z) =
   deformVertex scale heightScale seed (Vector3 x y 0)"
  by (simp add: deformVertex_def)

text \<open>
  Claim C10. The position attribute of a mountain mesh is the plane's lattice with every
  vertex \<open>(x, y)\<close> sent through the loop body, a function of \<open>scale\<close>, \<open>heightScale\<close>,
  \<open>seed\<close>, \<open>x\<close> and \<open>y\<close> alone: the loop over the vertex indices is a map, no vertex
  depends on another one, on the old elevation or on a draw. So two meshes with the same
  \<open>scale\<close>, \<open>heightScale\<close> and \<open>seed\<close> have the same elevations, whatever their offsets.
\<close>

theorem mountain_deterministic:
  "geometry_position (createMountainMesh offsetX offsetZ scale heightScale seed) =
     map (\<lambda>v. deformVertex scale heightScale seed (Vector3 (vx v) (vy v) 0))
       (PlaneGeometry (10000 * scale) (10000 * scale)
          (nat \<lfloor>256 * max 0.75 scale\<rfloor>) (nat \<lfloor>256 * max 0.75 scale\<rfloor>)) \<and>
   map vz (geometry_position (createMountainMesh offsetX' offsetZ' scale heightScale seed)) =
   map vz (geometry_position (createMountainMesh offsetX offsetZ scale heightScale seed))"
proof -
  have "deformVertex scale heightScale seed v =
        deformVertex scale heightScale seed (Vector3 (vx v) (vy v) 0)" for v
    using deformVertex_ignores_z [of scale heightScale seed "vx v" "vy v" "vz v"] by simp
  then have "map (deformVertex scale heightScale seed) vs =
        map (\<lambda>v. deformVertex scale heightScale seed (Vector3 (vx v) (vy v) 0)) vs" for vs
    by (intro map_cong refl)
  then show ?thesis
    by (simp add: createMountainMesh_def Let_def deformVertices_map)
qed

theorem mountain_deterministic_witness:
  "map vz (geometry_position (createMountainMesh (- 2800) 300 1 1 0)) =
   map vz (geometry_position (createMountainMesh 0 0 1 1 0))"
  using mountain_deterministic [of 0 0 1 1 0 "- 2800" 300] by simp

end
